theory Spec2Isabelle
  imports Complex_Main
begin

section \<open>Python values\<close>

text \<open>
  The server handles JSON documents decoded into Python objects: \<open>None\<close>, \<open>bool\<close>,
  \<open>int\<close>, \<open>float\<close>, \<open>str\<close>, \<open>list\<close> and \<open>dict\<close> with string keys. A dictionary keeps
  its insertion order, and several results below depend on that order, so it is an
  association list. A \<open>char\<close> stands for one code point below 256.

  Floats are kept abstract (the type parameter \<open>'f\<close>), and what the interpreter does
  with them is a parameter of the model, the record \<open>python\<close>: \<open>float(i)\<close> of an integer,
  \<open>x + y\<close>, \<open>abs(x) > 1e10\<close>, the truth value of \<open>x\<close>, \<open>x == y\<close> and \<open>x == i\<close> for an integer
  \<open>i\<close>, and the text that \<open>repr\<close> prints. So a NaN, an infinity or a negative zero behaves
  as the interpreter makes it. \<open>f_val\<close> is the exact value of a float; only the age check
  of a token reads it, on the \<open>iat\<close> of a payload that the library has decoded. The texts
  of the exceptions that the interpreter itself raises are parameters as well.
\<close>

datatype 'f pyval =
    PNone
  | PBool bool
  | PInt int
  | PFloat 'f
  | PStr string
  | PList "'f pyval list"
  | PDict "(string \<times> 'f pyval) list"

type_synonym 'f pydict = "(string \<times> 'f pyval) list"

record 'f python =
  f_of_int :: "int \<Rightarrow> 'f"
  f_add :: "'f \<Rightarrow> 'f \<Rightarrow> 'f"
  f_exceeds :: "'f \<Rightarrow> bool"
  f_nonzero :: "'f \<Rightarrow> bool"
  f_eq :: "'f \<Rightarrow> 'f \<Rightarrow> bool"
  f_eq_int :: "'f \<Rightarrow> int \<Rightarrow> bool"
  f_str :: "'f \<Rightarrow> string"
  f_val :: "'f \<Rightarrow> rat"
  msg_unsupported :: "string \<Rightarrow> string \<Rightarrow> string"

text \<open>
  The exceptions. \<open>InvalidTokenError\<close> is an exception whose class is
  \<open>jwt.InvalidTokenError\<close> itself or \<open>jwt.DecodeError\<close> itself; \<open>InvalidTokenSubclass\<close> is
  one of any other subclass of \<open>jwt.InvalidTokenError\<close> but \<open>ExpiredSignatureError\<close> (an
  \<open>InvalidAudienceError\<close>, say). An \<open>except jwt.InvalidTokenError\<close> catches all three.
  \<open>OtherError\<close> is an exception of a class that no handler and no table of this
  repository names.
\<close>

datatype py_exception =
    ValueError string
  | TypeError string
  | AttributeError string
  | InvalidTokenError string
  | InvalidTokenSubclass string
  | ExpiredSignatureError string
  | OtherError string

text \<open>\<open>str(e)\<close> of an exception: its message.\<close>

fun exc_str :: "py_exception \<Rightarrow> string" where
  "exc_str (ValueError m) = m"
| "exc_str (TypeError m) = m"
| "exc_str (AttributeError m) = m"
| "exc_str (InvalidTokenError m) = m"
| "exc_str (InvalidTokenSubclass m) = m"
| "exc_str (ExpiredSignatureError m) = m"
| "exc_str (OtherError m) = m"

fun type_name :: "'f pyval \<Rightarrow> string" where
  "type_name PNone = ''NoneType''"
| "type_name (PBool _) = ''bool''"
| "type_name (PInt _) = ''int''"
| "type_name (PFloat _) = ''float''"
| "type_name (PStr _) = ''str''"
| "type_name (PList _) = ''list''"
| "type_name (PDict _) = ''dict''"

text \<open>\<open>d.get(k)\<close> and \<open>d.get(k, default)\<close>.\<close>

definition dict_get :: "'f pydict \<Rightarrow> string \<Rightarrow> 'f pyval option" where
  "dict_get d k = map_of d k"

definition dict_get_default :: "'f pydict \<Rightarrow> string \<Rightarrow> 'f pyval \<Rightarrow> 'f pyval" where
  "dict_get_default d k dflt = (case map_of d k of None \<Rightarrow> dflt | Some v \<Rightarrow> v)"

text \<open>\<open>d[k] = v\<close>: an existing key keeps its position, a new key goes last.\<close>

fun dict_set :: "('k \<times> 'v) list \<Rightarrow> 'k \<Rightarrow> 'v \<Rightarrow> ('k \<times> 'v) list" where
  "dict_set [] k v = [(k, v)]"
| "dict_set ((k', v') # d) k v = (if k' = k then (k, v) # d else (k', v') # dict_set d k v)"

text \<open>\<open>isinstance\<close> tests. A Python \<open>bool\<close> is an \<open>int\<close>.\<close>

fun isinstance_str :: "'f pyval \<Rightarrow> bool" where
  "isinstance_str (PStr _) = True"
| "isinstance_str _ = False"

fun isinstance_int :: "'f pyval \<Rightarrow> bool" where
  "isinstance_int (PInt _) = True"
| "isinstance_int (PBool _) = True"
| "isinstance_int _ = False"

fun isinstance_bool :: "'f pyval \<Rightarrow> bool" where
  "isinstance_bool (PBool _) = True"
| "isinstance_bool _ = False"

fun isinstance_int_float :: "'f pyval \<Rightarrow> bool" where
  "isinstance_int_float (PInt _) = True"
| "isinstance_int_float (PBool _) = True"
| "isinstance_int_float (PFloat _) = True"
| "isinstance_int_float _ = False"

fun is_float :: "'f pyval \<Rightarrow> bool" where
  "is_float (PFloat _) = True"
| "is_float _ = False"

text \<open>The integer value of an \<open>int\<close> or \<open>bool\<close>, and the exact value of a number.\<close>

fun int_val :: "'f pyval \<Rightarrow> int" where
  "int_val (PInt i) = i"
| "int_val (PBool b) = (if b then 1 else 0)"
| "int_val _ = 0"

fun num_val :: "'f python \<Rightarrow> 'f pyval \<Rightarrow> rat" where
  "num_val P (PFloat x) = f_val P x"
| "num_val P v = of_int (int_val v)"

text \<open>Truth value of an object, as \<open>if x:\<close> and \<open>not x\<close> take it.\<close>

fun py_truthy :: "'f python \<Rightarrow> 'f pyval \<Rightarrow> bool" where
  "py_truthy P PNone = False"
| "py_truthy P (PBool b) = b"
| "py_truthy P (PInt i) = (i \<noteq> 0)"
| "py_truthy P (PFloat x) = f_nonzero P x"
| "py_truthy P (PStr s) = (s \<noteq> [])"
| "py_truthy P (PList xs) = (xs \<noteq> [])"
| "py_truthy P (PDict d) = (d \<noteq> [])"

subsection \<open>Strings\<close>

definition squote :: char where
  "squote = CHR 0x27"

definition dquote :: char where
  "dquote = CHR 0x22"

definition backslash :: char where
  "backslash = CHR 0x5C"

fun digits10 :: "nat \<Rightarrow> string" where
  "digits10 n = (if n < 10 then [''0123456789'' ! n]
                 else digits10 (n div 10) @ [''0123456789'' ! (n mod 10)])"

declare digits10.simps [simp del]

text \<open>\<open>str(i)\<close> of an integer.\<close>

definition str_int :: "int \<Rightarrow> string" where
  "str_int i = (if i < 0 then CHR ''-'' # digits10 (nat (- i)) else digits10 (nat i))"

text \<open>\<open>sep.join(xs)\<close>.\<close>

fun py_join :: "string \<Rightarrow> string list \<Rightarrow> string" where
  "py_join sep [] = []"
| "py_join sep [x] = x"
| "py_join sep (x # y # ys) = x @ sep @ py_join sep (y # ys)"

text \<open>\<open>sub in s\<close> for strings.\<close>

fun is_prefix :: "'a list \<Rightarrow> 'a list \<Rightarrow> bool" where
  "is_prefix [] ys = True"
| "is_prefix (x # xs) [] = False"
| "is_prefix (x # xs) (y # ys) = (x = y \<and> is_prefix xs ys)"

fun is_substring :: "'a list \<Rightarrow> 'a list \<Rightarrow> bool" where
  "is_substring sub [] = (sub = [])"
| "is_substring sub (y # ys) = (is_prefix sub (y # ys) \<or> is_substring sub ys)"

text \<open>
  \<open>repr\<close> of a string: single quotes, unless the string has a single quote and no double
  quote; the quote and the backslash are escaped, tab, newline and carriage return are
  written \<open>\t\<close>, \<open>\n\<close>, \<open>\r\<close>, and the other code points that are not printable (below 32,
  127 to 160, and 173) are written \<open>\xhh\<close>.
\<close>

definition py_printable :: "char \<Rightarrow> bool" where
  "py_printable c = (let n = (of_char c :: nat) in 32 \<le> n \<and> n < 127 \<or> 161 \<le> n \<and> n \<noteq> 173)"

definition hex2 :: "char \<Rightarrow> string" where
  "hex2 c = (let n = (of_char c :: nat) in
     [''0123456789abcdef'' ! (n div 16), ''0123456789abcdef'' ! (n mod 16)])"

definition repr_char :: "char \<Rightarrow> char \<Rightarrow> string" where
  "repr_char q c =
     (if c = q \<or> c = backslash then [backslash, c]
      else if c = CHR 0x09 then [backslash, CHR ''t'']
      else if c = CHR 0x0A then [backslash, CHR ''n'']
      else if c = CHR 0x0D then [backslash, CHR ''r'']
      else if py_printable c then [c]
      else [backslash, CHR ''x''] @ hex2 c)"

definition repr_str :: "string \<Rightarrow> string" where
  "repr_str s =
     (let q = (if squote \<in> set s \<and> dquote \<notin> set s then dquote else squote)
      in [q] @ concat (map (repr_char q) s) @ [q])"

text \<open>\<open>repr(v)\<close>, and \<open>str(v)\<close> as an f-string prints a value.\<close>

fun py_repr :: "'f python \<Rightarrow> 'f pyval \<Rightarrow> string" where
  "py_repr P PNone = ''None''"
| "py_repr P (PBool b) = (if b then ''True'' else ''False'')"
| "py_repr P (PInt i) = str_int i"
| "py_repr P (PFloat x) = f_str P x"
| "py_repr P (PStr s) = repr_str s"
| "py_repr P (PList xs) = ''['' @ py_join '', '' (map (py_repr P) xs) @ '']''"
| "py_repr P (PDict d) =
     ''{'' @ py_join '', '' (map (\<lambda>(k, v). repr_str k @ '': '' @ py_repr P v) d) @ ''}''"

fun py_str :: "'f python \<Rightarrow> 'f pyval \<Rightarrow> string" where
  "py_str P (PStr s) = s"
| "py_str P v = py_repr P v"

section \<open>Tools\<close>

subsection \<open>tools/base.py\<close>

text \<open>
  \<open>ToolSchema\<close> and \<open>ToolResult\<close>. An input schema is the dictionary a tool returns from
  \<open>input_schema\<close>, with its three entries as fields. Logging is left out throughout: it
  returns nothing and the calls made for it (\<open>str\<close>, \<open>sanitize_log_output\<close>,
  \<open>user_info.get\<close> on the authenticated user's dictionary) raise nothing, so
  \<open>user_info\<close>, which only the log lines read, is no argument of the model.
\<close>

record 'f ToolSchema =
  schema_type :: string
  properties :: "(string \<times> 'f pydict) list"
  required :: "string list"

record 'f ToolResult =
  content :: "'f pydict list"
  isError :: bool

definition text_content :: "string \<Rightarrow> 'f pydict list" where
  "text_content t = [[(''type'', PStr ''text''), (''text'', PStr t)]]"

text \<open>\<open>field in arguments\<close>, for whatever object \<open>arguments\<close> is.\<close>

fun py_in :: "'f python \<Rightarrow> string \<Rightarrow> 'f pyval \<Rightarrow> py_exception + bool" where
  "py_in P k (PDict d) = Inr (k \<in> set (map fst d))"
| "py_in P k (PList xs) = Inr (list_ex (\<lambda>x. case x of PStr s \<Rightarrow> s = k | _ \<Rightarrow> False) xs)"
| "py_in P k (PStr s) = Inr (is_substring k s)"
| "py_in P k v = Inl (TypeError (msg_unsupported P ''in'' (type_name v)))"

text \<open>\<open>[field for field in required_fields if field not in arguments]\<close>\<close>

fun missing_fields :: "'f python \<Rightarrow> 'f pyval \<Rightarrow> string list \<Rightarrow> py_exception + string list" where
  "missing_fields P arguments [] = Inr []"
| "missing_fields P arguments (fld # flds) =
     (case py_in P fld arguments of
        Inl e \<Rightarrow> Inl e
      | Inr present \<Rightarrow>
          (case missing_fields P arguments flds of
             Inl e \<Rightarrow> Inl e
           | Inr ms \<Rightarrow> Inr (if present then ms else fld # ms)))"

text \<open>The type test of one field that the schema's properties name.\<close>

definition check_field_type :: "'f pydict \<Rightarrow> string \<Rightarrow> 'f pyval \<Rightarrow> py_exception option" where
  "check_field_type field_schema field_name field_value =
     (let expected_type = dict_get field_schema ''type'' in
      if expected_type = Some (PStr ''string'') \<and> \<not> isinstance_str field_value then
        Some (ValueError (''Field '' @ [squote] @ field_name @ [squote] @ '' must be a string''))
      else if expected_type = Some (PStr ''number'') \<and> \<not> isinstance_int_float field_value then
        Some (ValueError (''Field '' @ [squote] @ field_name @ [squote] @ '' must be a number''))
      else if expected_type = Some (PStr ''integer'') \<and> \<not> isinstance_int field_value then
        Some (ValueError (''Field '' @ [squote] @ field_name @ [squote] @ '' must be an integer''))
      else if expected_type = Some (PStr ''boolean'') \<and> \<not> isinstance_bool field_value then
        Some (ValueError (''Field '' @ [squote] @ field_name @ [squote] @ '' must be a boolean''))
      else None)"

text \<open>
  The loop over \<open>arguments.items()\<close>: \<open>validated_args\<close> is the dictionary built so far.
  A field that the properties do not name is stored as it is (the source only logs a
  warning there).
\<close>

fun validate_fields ::
  "(string \<times> 'f pydict) list \<Rightarrow> 'f pydict \<Rightarrow> 'f pydict \<Rightarrow> py_exception + 'f pydict" where
  "validate_fields props [] validated_args = Inr validated_args"
| "validate_fields props ((field_name, field_value) # items) validated_args =
     (case map_of props field_name of
        Some field_schema \<Rightarrow>
          (case check_field_type field_schema field_name field_value of
             Some e \<Rightarrow> Inl e
           | None \<Rightarrow> validate_fields props items (dict_set validated_args field_name field_value))
      | None \<Rightarrow> validate_fields props items (dict_set validated_args field_name field_value))"

definition validate_arguments ::
  "'f python \<Rightarrow> 'f ToolSchema \<Rightarrow> 'f pyval \<Rightarrow> py_exception + 'f pydict" where
  "validate_arguments P schema arguments =
     (case missing_fields P arguments (required schema) of
        Inl e \<Rightarrow> Inl e
      | Inr missing \<Rightarrow>
          if missing \<noteq> [] then
            Inl (ValueError (''Missing required fields: '' @ py_repr P (PList (map PStr missing))))
          else
            (case arguments of
               PDict d \<Rightarrow> validate_fields (properties schema) d []
             | _ \<Rightarrow> Inl (AttributeError (msg_unsupported P ''items'' (type_name arguments)))))"

text \<open>The two handlers of \<open>safe_execute\<close>: \<open>except ValueError\<close>, then \<open>except Exception\<close>.\<close>

fun error_result :: "py_exception \<Rightarrow> 'f ToolResult" where
  "error_result (ValueError m) =
     \<lparr>content = text_content (''Validation error: '' @ m), isError = True\<rparr>"
| "error_result e =
     \<lparr>content = text_content (''Tool execution failed: '' @ exc_str e), isError = True\<rparr>"

subsection \<open>tools/echo.py and tools/add.py\<close>

datatype tool = EchoTool | AddTool

fun tool_name :: "tool \<Rightarrow> string" where
  "tool_name EchoTool = ''echo''"
| "tool_name AddTool = ''add''"

fun description :: "tool \<Rightarrow> string" where
  "description EchoTool = ''Echo back the provided message''"
| "description AddTool = ''Add two numbers together''"

fun input_schema :: "'f python \<Rightarrow> tool \<Rightarrow> 'f ToolSchema" where
  "input_schema P EchoTool =
     \<lparr>schema_type = ''object'',
      properties =
        [(''message'',
          [(''type'', PStr ''string''),
           (''description'', PStr ''The message to echo back''),
           (''maxLength'', PInt 1000)])],
      required = [''message'']\<rparr>"
| "input_schema P AddTool =
     \<lparr>schema_type = ''object'',
      properties =
        [(''a'',
          [(''type'', PStr ''number''),
           (''description'', PStr ''First number to add''),
           (''minimum'', PFloat (f_of_int P (- (10 ^ 10)))),
           (''maximum'', PFloat (f_of_int P (10 ^ 10)))]),
         (''b'',
          [(''type'', PStr ''number''),
           (''description'', PStr ''Second number to add''),
           (''minimum'', PFloat (f_of_int P (- (10 ^ 10)))),
           (''maximum'', PFloat (f_of_int P (10 ^ 10)))])],
      required = [''a'', ''b'']\<rparr>"

text \<open>\<open>len(message)\<close>\<close>

fun py_len :: "'f python \<Rightarrow> 'f pyval \<Rightarrow> py_exception + nat" where
  "py_len P (PStr s) = Inr (length s)"
| "py_len P (PList xs) = Inr (length xs)"
| "py_len P (PDict d) = Inr (length d)"
| "py_len P v = Inl (TypeError (msg_unsupported P ''len'' (type_name v)))"

definition echo_execute :: "'f python \<Rightarrow> 'f pydict \<Rightarrow> py_exception + 'f ToolResult" where
  "echo_execute P arguments =
     (let message = dict_get_default arguments ''message'' (PStr []) in
      case py_len P message of
        Inl e \<Rightarrow> Inl e
      | Inr n \<Rightarrow>
          if n > 1000 then
            Inr \<lparr>content = text_content ''Error: Message too long (maximum 1000 characters)'',
                 isError = True\<rparr>
          else
            Inr \<lparr>content = text_content (''Echo: '' @ py_str P message), isError = False\<rparr>)"

text \<open>
  \<open>abs(v) > 1e10\<close> on a number: exact on an \<open>int\<close> or \<open>bool\<close>, the interpreter's answer on
  a float (for a NaN it is \<open>False\<close>).
\<close>

fun exceeds_bound :: "'f python \<Rightarrow> 'f pyval \<Rightarrow> bool" where
  "exceeds_bound P (PFloat x) = f_exceeds P x"
| "exceeds_bound P v = (\<bar>int_val v\<bar> > 10 ^ 10)"

text \<open>
  \<open>a + b\<close> on numbers: an integer sum unless a float takes part, and then the
  interpreter's sum of floats, an \<open>int\<close> or \<open>bool\<close> operand converted first. (The tool adds
  only numbers that passed the bound test, so the conversion cannot overflow. The \<open>try\<close>
  around the addition has nothing to catch on numbers, so its handler is no branch here.)
\<close>

fun as_float :: "'f python \<Rightarrow> 'f pyval \<Rightarrow> 'f" where
  "as_float P (PFloat x) = x"
| "as_float P v = f_of_int P (int_val v)"

definition py_add :: "'f python \<Rightarrow> 'f pyval \<Rightarrow> 'f pyval \<Rightarrow> 'f pyval" where
  "py_add P a b =
     (if is_float a \<or> is_float b then PFloat (f_add P (as_float P a) (as_float P b))
      else PInt (int_val a + int_val b))"

definition add_execute :: "'f python \<Rightarrow> 'f pydict \<Rightarrow> py_exception + 'f ToolResult" where
  "add_execute P arguments =
     (let a = dict_get_default arguments ''a'' (PInt 0);
          b = dict_get_default arguments ''b'' (PInt 0) in
      if \<not> isinstance_int_float a \<or> \<not> isinstance_int_float b then
        Inr \<lparr>content = text_content
               (''Error: Both '' @ [squote] @ ''a'' @ [squote] @ '' and '' @ [squote] @ ''b''
                  @ [squote] @ '' must be numbers''),
             isError = True\<rparr>
      else if exceeds_bound P a \<or> exceeds_bound P b then
        Inr \<lparr>content = text_content
               ''Error: Numbers too large (maximum absolute value: 10,000,000,000)'',
             isError = True\<rparr>
      else
        (let result = py_add P a b in
         Inr \<lparr>content = text_content
                (py_str P a @ '' + '' @ py_str P b @ '' = '' @ py_str P result),
              isError = False\<rparr>))"

fun execute :: "'f python \<Rightarrow> tool \<Rightarrow> 'f pydict \<Rightarrow> py_exception + 'f ToolResult" where
  "execute P EchoTool arguments = echo_execute P arguments"
| "execute P AddTool arguments = add_execute P arguments"

text \<open>
  \<open>BaseTool.safe_execute\<close>: validation, then the tool's \<open>execute\<close> on the validated
  arguments; every exception of either becomes an error result.
\<close>

definition safe_execute :: "'f python \<Rightarrow> tool \<Rightarrow> 'f pyval \<Rightarrow> 'f ToolResult" where
  "safe_execute P t arguments =
     (case validate_arguments P (input_schema P t) arguments of
        Inl e \<Rightarrow> error_result e
      | Inr validated_args \<Rightarrow>
          (case execute P t validated_args of
             Inl e \<Rightarrow> error_result e
           | Inr result \<Rightarrow> result))"

subsection \<open>tools/registry.py\<close>

type_synonym registry = "(string \<times> tool) list"

definition register_tool :: "registry \<Rightarrow> tool \<Rightarrow> registry" where
  "register_tool reg t = dict_set reg (tool_name t) t"

definition default_registry :: registry where
  "default_registry = foldl register_tool [] [EchoTool, AddTool]"

text \<open>
  \<open>self._tools.get(tool_name)\<close>. The name is whatever JSON value the request gave: a list
  or a dictionary cannot be hashed, and a value that is no string equals no key.
\<close>

fun get_tool :: "'f python \<Rightarrow> registry \<Rightarrow> 'f pyval \<Rightarrow> py_exception + tool option" where
  "get_tool P reg (PStr s) = Inr (map_of reg s)"
| "get_tool P reg (PList xs) = Inl (TypeError (msg_unsupported P ''hash'' ''list''))"
| "get_tool P reg (PDict d) = Inl (TypeError (msg_unsupported P ''hash'' ''dict''))"
| "get_tool P reg v = Inr None"

definition execute_tool ::
  "'f python \<Rightarrow> registry \<Rightarrow> 'f pyval \<Rightarrow> 'f pyval \<Rightarrow> py_exception + 'f ToolResult" where
  "execute_tool P reg name arguments =
     (case get_tool P reg name of
        Inl e \<Rightarrow> Inl e
      | Inr None \<Rightarrow> Inl (ValueError (''Tool not found: '' @ py_str P name))
      | Inr (Some t) \<Rightarrow> Inr (safe_execute P t arguments))"

text \<open>\<open>list_tools\<close>, each definition already as the dictionary \<open>tool.dict()\<close> gives.\<close>

definition tool_definition_dict :: "'f python \<Rightarrow> tool \<Rightarrow> 'f pyval" where
  "tool_definition_dict P t =
     (let s = input_schema P t in
      PDict [(''name'', PStr (tool_name t)),
             (''description'', PStr (description t)),
             (''inputSchema'',
              PDict [(''type'', PStr (schema_type s)),
                     (''properties'', PDict (map (\<lambda>(k, d). (k, PDict d)) (properties s))),
                     (''required'', PList (map PStr (required s)))])])"

definition list_tools :: "'f python \<Rightarrow> registry \<Rightarrow> 'f pyval list" where
  "list_tools P reg = map (\<lambda>(n, t). tool_definition_dict P t) reg"

section \<open>More string operations\<close>

text \<open>\<open>s.split(c)\<close> with a one-character separator: never an empty list.\<close>

fun split_on :: "char \<Rightarrow> string \<Rightarrow> string list" where
  "split_on c [] = [[]]"
| "split_on c (x # xs) =
     (if x = c then [] # split_on c xs
      else (case split_on c xs of p # ps \<Rightarrow> (x # p) # ps | [] \<Rightarrow> [[x]]))"

text \<open>
  \<open>c.isspace()\<close> on the code points below 256: tab to carriage return, the four
  separators 28 to 31, the space, NEL (133) and the no-break space (160).
\<close>

definition py_isspace :: "char \<Rightarrow> bool" where
  "py_isspace c =
     (let n = (of_char c :: nat) in 9 \<le> n \<and> n \<le> 13 \<or> 28 \<le> n \<and> n \<le> 32 \<or> n = 133 \<or> n = 160)"

text \<open>\<open>s.strip()\<close>\<close>

definition py_strip :: "string \<Rightarrow> string" where
  "py_strip s = rev (dropWhile py_isspace (rev (dropWhile py_isspace s)))"

text \<open>\<open>s.split()\<close>: the maximal runs of characters that are not whitespace.\<close>

fun split_ws :: "string \<Rightarrow> string \<Rightarrow> string list" where
  "split_ws [] cur = (if cur = [] then [] else [cur])"
| "split_ws (c # cs) cur =
     (if py_isspace c then (if cur = [] then split_ws cs [] else cur # split_ws cs [])
      else split_ws cs (cur @ [c]))"

definition py_split :: "string \<Rightarrow> string list" where
  "py_split s = split_ws s []"

text \<open>\<open>s.lower()\<close> on the code points below 256.\<close>

definition lower_char :: "char \<Rightarrow> char" where
  "lower_char c =
     (let n = (of_char c :: nat) in
      if 65 \<le> n \<and> n \<le> 90 \<or> 192 \<le> n \<and> n \<le> 222 \<and> n \<noteq> 215 then char_of (n + 32) else c)"

definition py_lower :: "string \<Rightarrow> string" where
  "py_lower s = map lower_char s"

section \<open>Token verification\<close>

subsection \<open>utils/validation.py\<close>

text \<open>
  \<open>re.match\<close> of \<open>^[A-Za-z0-9_-]+$\<close>: a non-empty run of the alphabet, and, since \<open>$\<close> also
  matches before a newline that ends the string, possibly one newline after it.
\<close>

definition base64url_char :: "char \<Rightarrow> bool" where
  "base64url_char c =
     (let n = (of_char c :: nat) in
      65 \<le> n \<and> n \<le> 90 \<or> 97 \<le> n \<and> n \<le> 122 \<or> 48 \<le> n \<and> n \<le> 57
        \<or> c = CHR ''_'' \<or> c = CHR ''-'')"

definition base64url_match :: "string \<Rightarrow> bool" where
  "base64url_match part =
     (let run = (if part \<noteq> [] \<and> last part = CHR 0x0A then butlast part else part)
      in run \<noteq> [] \<and> list_all base64url_char run)"

definition validate_jwt_token_format :: "string \<Rightarrow> bool" where
  "validate_jwt_token_format token =
     (let parts = split_on CHR ''.'' token in
      if length parts \<noteq> 3 then False
      else if \<not> list_all base64url_match parts then False
      else if length token > 10000 then False
      else True)"

subsection \<open>auth/cognito.py\<close>

text \<open>
  What \<open>validate_cognito_token\<close> does not compute itself is a parameter: the HTTP request
  for the key set, and the three entry points of the JWT library it calls
  (\<open>jwt.get_unverified_header\<close>, \<open>RSAAlgorithm.from_jwk\<close>, \<open>jwt.decode\<close>). A call of
  \<open>jwt.decode\<close> is the record of its arguments; an argument the source does not pass is
  \<open>None\<close>.
\<close>

record cognito_config =
  user_pool_id :: string
  client_id :: "string option"
  region :: string
  jwks_url :: string

datatype 'f fetch_outcome =
    FetchTimeout
  | FetchStatusError
  | FetchOtherError
  | FetchJson "'f pyval"

record jwt_options =
  verify_signature :: bool
  verify_exp :: "bool option"
  verify_nbf :: "bool option"
  verify_iat :: "bool option"
  verify_aud :: "bool option"

record 'key decode_call =
  dc_token :: string
  dc_key :: "'key option"
  dc_algorithms :: "string list option"
  dc_issuer :: "string option"
  dc_options :: jwt_options
  dc_audience :: "string option"

record ('f, 'key) jwt_library =
  get_unverified_header :: "string \<Rightarrow> py_exception + 'f pydict"
  from_jwk :: "'f pydict \<Rightarrow> py_exception + 'key"
  jwt_decode :: "'key decode_call \<Rightarrow> py_exception + 'f pydict"

text \<open>Lines 62 to 84: the key set. Every exception here ends as an \<open>InvalidTokenError\<close>.\<close>

definition fetch_jwks :: "(string \<Rightarrow> 'f fetch_outcome) \<Rightarrow> cognito_config \<Rightarrow> py_exception + 'f pyval" where
  "fetch_jwks http_get cfg =
     (if \<not> is_prefix ''https://cognito-idp.'' (jwks_url cfg)
         \<or> \<not> is_substring ''.amazonaws.com'' (jwks_url cfg) then
        Inl (InvalidTokenError ''JWKS validation failed'')
      else
        (case http_get (jwks_url cfg) of
           FetchTimeout \<Rightarrow> Inl (InvalidTokenError ''Token validation timeout'')
         | FetchStatusError \<Rightarrow> Inl (InvalidTokenError ''Unable to fetch JWKS'')
         | FetchOtherError \<Rightarrow> Inl (InvalidTokenError ''JWKS validation failed'')
         | FetchJson jwks \<Rightarrow> Inr jwks))"

text \<open>
  \<open>a == b\<close> on decoded JSON: numbers (a \<open>bool\<close> is one) by value, a float as the
  interpreter compares it, lists element by element, dictionaries key by key.
\<close>

fun num_eq :: "'f python \<Rightarrow> 'f pyval \<Rightarrow> 'f pyval \<Rightarrow> bool" where
  "num_eq P (PFloat x) (PFloat y) = f_eq P x y"
| "num_eq P (PFloat x) b = f_eq_int P x (int_val b)"
| "num_eq P a (PFloat y) = f_eq_int P y (int_val a)"
| "num_eq P a b = (int_val a = int_val b)"

lemma size_list_member: "x \<in> set xs \<Longrightarrow> f x < Suc (size_list f xs)"
  by (induction xs) auto

lemma size_zip_left:
  "(x, y) \<in> set (zip xs ys) \<Longrightarrow> size (x :: 'f pyval) < Suc (size_list size xs)"
  using size_list_member [of x xs size] by (auto dest: set_zip_leftD)

lemma size_dict_value:
  "(k, v) \<in> set d \<Longrightarrow> size (v :: 'f pyval) < Suc (size_list (size_prod (\<lambda>x. 0) size) d)"
  using size_list_member [of "(k, v)" d "size_prod (\<lambda>x. 0) size"] by simp

function py_eq :: "'f python \<Rightarrow> 'f pyval \<Rightarrow> 'f pyval \<Rightarrow> bool" where
  "py_eq P a b =
     (if isinstance_int_float a \<or> isinstance_int_float b then
        isinstance_int_float a \<and> isinstance_int_float b \<and> num_eq P a b
      else
        (case (a, b) of
           (PNone, PNone) \<Rightarrow> True
         | (PStr s, PStr t) \<Rightarrow> s = t
         | (PList xs, PList ys) \<Rightarrow>
             length xs = length ys \<and> list_all (\<lambda>(x, y). py_eq P x y) (zip xs ys)
         | (PDict d, PDict e) \<Rightarrow>
             length d = length e
               \<and> list_all (\<lambda>(k, v). list_ex (\<lambda>(k', w). k' = k \<and> py_eq P v w) e) d
         | _ \<Rightarrow> False))"
  by pat_completeness auto
termination
  by (relation "measure (\<lambda>(P, a, b). size a)") (auto simp: size_zip_left size_dict_value)

declare py_eq.simps [simp del]

text \<open>
  Lines 87 to 109: the signing key. \<open>find_rsa_key\<close> is the loop over the key set's
  \<open>keys\<close>; \<open>key_resolution\<close> is the body of the \<open>try\<close>, and \<open>resolve_key\<close> adds its
  handler, which turns every exception into the same \<open>InvalidTokenError\<close>.
\<close>

fun find_rsa_key ::
  "'f python \<Rightarrow> ('f, 'key) jwt_library \<Rightarrow> 'f pyval \<Rightarrow> 'f pyval list \<Rightarrow> py_exception + 'key option" where
  "find_rsa_key P L kid [] = Inr None"
| "find_rsa_key P L kid (key # keys) =
     (case key of
        PDict k \<Rightarrow>
          (if py_eq P (dict_get_default k ''kid'' PNone) kid then
             (case from_jwk L k of Inl e \<Rightarrow> Inl e | Inr rsa_key \<Rightarrow> Inr (Some rsa_key))
           else find_rsa_key P L kid keys)
      | _ \<Rightarrow> Inl (AttributeError (msg_unsupported P ''get'' (type_name key))))"

text \<open>What \<open>for key in v\<close> runs over: a dictionary gives its keys, a string its characters.\<close>

fun py_iter :: "'f python \<Rightarrow> 'f pyval \<Rightarrow> py_exception + 'f pyval list" where
  "py_iter P (PList xs) = Inr xs"
| "py_iter P (PDict d) = Inr (map (\<lambda>(k, v). PStr k) d)"
| "py_iter P (PStr s) = Inr (map (\<lambda>c. PStr [c]) s)"
| "py_iter P v = Inl (TypeError (msg_unsupported P ''iter'' (type_name v)))"

definition key_resolution ::
  "'f python \<Rightarrow> ('f, 'key) jwt_library \<Rightarrow> 'f pyval \<Rightarrow> string \<Rightarrow> py_exception + 'key" where
  "key_resolution P L jwks token =
     (case get_unverified_header L token of
        Inl e \<Rightarrow> Inl e
      | Inr unverified_header \<Rightarrow>
          (let kid = dict_get_default unverified_header ''kid'' PNone in
           if \<not> py_truthy P kid then Inl (InvalidTokenError ''Token missing key ID'')
           else
             (case jwks of
                PDict j \<Rightarrow>
                  (case py_iter P (dict_get_default j ''keys'' (PList [])) of
                     Inl e \<Rightarrow> Inl e
                   | Inr keys \<Rightarrow>
                       (case find_rsa_key P L kid keys of
                          Inl e \<Rightarrow> Inl e
                        | Inr None \<Rightarrow> Inl (InvalidTokenError ''Unable to find appropriate key'')
                        | Inr (Some rsa_key) \<Rightarrow> Inr rsa_key))
              | _ \<Rightarrow> Inl (AttributeError (msg_unsupported P ''get'' (type_name jwks))))))"

definition resolve_key ::
  "'f python \<Rightarrow> ('f, 'key) jwt_library \<Rightarrow> 'f pyval \<Rightarrow> string \<Rightarrow> py_exception + 'key" where
  "resolve_key P L jwks token =
     (case key_resolution P L jwks token of
        Inl e \<Rightarrow> Inl (InvalidTokenError ''Key resolution failed'')
      | Inr rsa_key \<Rightarrow> Inr rsa_key)"

text \<open>
  Lines 112 to 140: the two calls of \<open>jwt.decode\<close>. The first verifies nothing and only
  tells whether the payload has an \<open>aud\<close> entry; the second verifies the signature and the
  registered claims, the audience only when that entry exists.
\<close>

definition issuer :: "cognito_config \<Rightarrow> string" where
  "issuer cfg = ''https://cognito-idp.'' @ region cfg @ ''.amazonaws.com/'' @ user_pool_id cfg"

definition unverified_call :: "string \<Rightarrow> 'key decode_call" where
  "unverified_call token =
     \<lparr>dc_token = token, dc_key = None, dc_algorithms = None, dc_issuer = None,
      dc_options = \<lparr>verify_signature = False, verify_exp = None, verify_nbf = None,
                    verify_iat = None, verify_aud = None\<rparr>,
      dc_audience = None\<rparr>"

definition verified_call :: "cognito_config \<Rightarrow> 'key \<Rightarrow> bool \<Rightarrow> string \<Rightarrow> 'key decode_call" where
  "verified_call cfg rsa_key has_audience token =
     \<lparr>dc_token = token, dc_key = Some rsa_key, dc_algorithms = Some [''RS256''],
      dc_issuer = Some (issuer cfg),
      dc_options = \<lparr>verify_signature = True, verify_exp = Some True, verify_nbf = Some True,
                    verify_iat = Some True, verify_aud = Some has_audience\<rparr>,
      dc_audience = (if has_audience then client_id cfg else None)\<rparr>"

text \<open>
  The handlers of that \<open>try\<close>: an expired signature is raised again as it is, for any
  other \<open>jwt.InvalidTokenError\<close> a new one is raised around its message, and an exception
  of another class is not caught.
\<close>

fun decode_handler :: "py_exception \<Rightarrow> py_exception" where
  "decode_handler (ExpiredSignatureError m) = ExpiredSignatureError m"
| "decode_handler (InvalidTokenError m) = InvalidTokenError (''Token validation failed: '' @ m)"
| "decode_handler (InvalidTokenSubclass m) = InvalidTokenError (''Token validation failed: '' @ m)"
| "decode_handler e = e"

definition decode_token ::
  "('f, 'key) jwt_library \<Rightarrow> cognito_config \<Rightarrow> 'key \<Rightarrow> string \<Rightarrow> py_exception + 'f pydict" where
  "decode_token L cfg rsa_key token =
     (case jwt_decode L (unverified_call token) of
        Inl e \<Rightarrow> Inl (decode_handler e)
      | Inr payload_check \<Rightarrow>
          (let has_audience = (''aud'' \<in> set (map fst payload_check)) in
           case jwt_decode L (verified_call cfg rsa_key has_audience token) of
             Inl e \<Rightarrow> Inl (decode_handler e)
           | Inr payload \<Rightarrow> Inr payload))"

text \<open>
  Lines 143 to 179: the checks after decoding. \<open>security_checks\<close> is the body of the
  \<open>try\<close>, with the exception each check raises; \<open>validate_token_security\<close> adds the
  handler \<open>except Exception\<close>, which raises one fixed \<open>InvalidTokenError\<close> instead.
  \<open>now\<close> is the value \<open>time.time()\<close> returns; the subtraction is taken as exact.
\<close>

definition scope_check ::
  "'f python \<Rightarrow> string list option \<Rightarrow> 'f pyval \<Rightarrow> 'f pydict \<Rightarrow> py_exception option" where
  "scope_check P required_scopes token_use payload =
     (case required_scopes of
        None \<Rightarrow> None
      | Some scopes \<Rightarrow>
          if scopes \<noteq> [] \<and> token_use = PStr ''access'' then
            (case dict_get_default payload ''scope'' (PStr []) of
               PStr s \<Rightarrow>
                 (let token_scopes = py_split s;
                      missing_scopes = filter (\<lambda>scope. scope \<notin> set token_scopes) scopes
                  in if missing_scopes \<noteq> [] then Some (InvalidTokenError ''Insufficient token scopes'')
                     else None)
             | v \<Rightarrow> Some (AttributeError (msg_unsupported P ''split'' (type_name v))))
          else None)"

definition security_checks ::
  "'f python \<Rightarrow> rat \<Rightarrow> string list option \<Rightarrow> 'f pydict \<Rightarrow> py_exception + 'f pydict" where
  "security_checks P now required_scopes payload =
     (let token_use = dict_get_default payload ''token_use'' PNone in
      if token_use \<noteq> PStr ''id'' \<and> token_use \<noteq> PStr ''access'' then
        Inl (InvalidTokenError ''Invalid token use'')
      else
        (case scope_check P required_scopes token_use payload of
           Some e \<Rightarrow> Inl e
         | None \<Rightarrow>
             if \<not> py_truthy P (dict_get_default payload ''sub'' PNone) then
               Inl (InvalidTokenError ''Token missing subject'')
             else
               (let iat = dict_get_default payload ''iat'' (PInt 0);
                    max_age = 3600 * 24 in
                if \<not> isinstance_int_float iat then
                  Inl (TypeError (msg_unsupported P ''-'' (type_name iat)))
                else if now - num_val P iat > max_age then
                  Inl (InvalidTokenError ''Token too old'')
                else Inr payload)))"

definition validate_token_security ::
  "'f python \<Rightarrow> rat \<Rightarrow> string list option \<Rightarrow> 'f pydict \<Rightarrow> py_exception + 'f pydict" where
  "validate_token_security P now required_scopes payload =
     (case security_checks P now required_scopes payload of
        Inl e \<Rightarrow> Inl (InvalidTokenError ''Token security validation failed'')
      | Inr p \<Rightarrow> Inr p)"

text \<open>The whole of \<open>validate_cognito_token\<close>.\<close>

definition validate_cognito_token ::
  "'f python \<Rightarrow> ('f, 'key) jwt_library \<Rightarrow> (string \<Rightarrow> 'f fetch_outcome) \<Rightarrow> rat \<Rightarrow> cognito_config
     \<Rightarrow> string list option \<Rightarrow> string \<Rightarrow> py_exception + 'f pydict" where
  "validate_cognito_token P L http_get now cognito_config required_scopes token =
     (if \<not> validate_jwt_token_format token then Inl (InvalidTokenError ''Invalid token format'')
      else
        (case fetch_jwks http_get cognito_config of
           Inl e \<Rightarrow> Inl e
         | Inr jwks \<Rightarrow>
             (case resolve_key P L jwks token of
                Inl e \<Rightarrow> Inl e
              | Inr rsa_key \<Rightarrow>
                  (case decode_token L cognito_config rsa_key token of
                     Inl e \<Rightarrow> Inl e
                   | Inr payload \<Rightarrow> validate_token_security P now required_scopes payload))))"

section \<open>Requests and responses\<close>

text \<open>
  A request, as far as the handlers read it: its headers, in the order and with the
  lower-case names the server hands them over, and the address that
  \<open>slowapi.util.get_remote_address\<close> returns for it. \<open>request.headers.get(name)\<close> takes
  the first header of that name.

  A response is what the handler builds: status, body (the JSON document, not its text;
  \<open>None\<close> for an empty body), media type, and the headers that the code of this
  repository sets, names in lower case as \<open>Response\<close> stores them. The content-length and
  content-type entries that \<open>Response\<close> adds by itself are not listed.
\<close>

record request =
  req_headers :: "(string \<times> string) list"
  remote_address :: string

definition headers_get :: "request \<Rightarrow> string \<Rightarrow> string option" where
  "headers_get req name = map_of (req_headers req) (py_lower name)"

record 'f Response =
  status_code :: nat
  body :: "'f pyval option"
  media_type :: "string option"
  raw_headers :: "(string \<times> string) list"

definition init_headers :: "(string \<times> string) list \<Rightarrow> (string \<times> string) list" where
  "init_headers hs = map (\<lambda>(k, v). (py_lower k, v)) hs"

text \<open>The value of a response header, as a client looks it up: the name in any case.\<close>

definition response_header :: "'f Response \<Rightarrow> string \<Rightarrow> string option" where
  "response_header r name = map_of (raw_headers r) (py_lower name)"

text \<open>
  \<open>response.headers[name] = value\<close>: the first entry of that name is replaced and later
  ones are dropped, and a new name goes last. \<open>del response.headers[name]\<close> drops every
  entry of the name.
\<close>

definition headers_setitem :: "(string \<times> string) list \<Rightarrow> string \<Rightarrow> string \<Rightarrow> (string \<times> string) list" where
  "headers_setitem hs name v =
     (let k = py_lower name in
      if k \<in> set (map fst hs) then
        takeWhile (\<lambda>(a, b). a \<noteq> k) hs @ [(k, v)]
          @ filter (\<lambda>(a, b). a \<noteq> k) (dropWhile (\<lambda>(a, b). a \<noteq> k) hs)
      else hs @ [(k, v)])"

definition headers_delitem :: "(string \<times> string) list \<Rightarrow> string \<Rightarrow> (string \<times> string) list" where
  "headers_delitem hs name = filter (\<lambda>(a, b). a \<noteq> py_lower name) hs"

subsection \<open>middleware/rate_limiting.py\<close>

definition get_real_client_ip :: "request \<Rightarrow> string" where
  "get_real_client_ip req =
     (let forwarded_for = headers_get req ''x-forwarded-for'' in
      if forwarded_for \<noteq> None \<and> forwarded_for \<noteq> Some [] then
        py_strip (hd (split_on CHR '','' (the forwarded_for)))
      else
        (let real_ip = headers_get req ''x-real-ip'' in
         if real_ip \<noteq> None \<and> real_ip \<noteq> Some [] then the real_ip
         else remote_address req))"

text \<open>
  The derivation of the client key in the words of the specification, section 4.3: the
  first entry of \<open>X-Forwarded-For\<close> when the header is present, else \<open>X-Real-IP\<close> when
  present, else the peer address.
\<close>

definition spec_client_key :: "request \<Rightarrow> string" where
  "spec_client_key req =
     (case headers_get req ''x-forwarded-for'' of
        Some forwarded_for \<Rightarrow> py_strip (hd (split_on CHR '','' forwarded_for))
      | None \<Rightarrow>
          (case headers_get req ''x-real-ip'' of
             Some real_ip \<Rightarrow> real_ip
           | None \<Rightarrow> remote_address req))"

subsection \<open>utils/client_detection.py\<close>

definition sanitize :: "string \<Rightarrow> string" where
  "sanitize s = filter (\<lambda>c. let n = (of_char c :: nat) in \<not> (n \<le> 31 \<or> 127 \<le> n \<and> n \<le> 159)) s"

definition client_patterns :: "(string \<times> string list) list" where
  "client_patterns =
     [(''julius'', [''julius.ai'', ''api.julius.ai'', ''app.julius.ai'']),
      (''claude'', [''claude.ai'', ''anthropic''])]"

definition header_source :: "request \<Rightarrow> string \<Rightarrow> string" where
  "header_source req name =
     sanitize (py_lower (take 500 (case headers_get req name of None \<Rightarrow> [] | Some v \<Rightarrow> v)))"

definition detect_client_securely :: "request \<Rightarrow> string" where
  "detect_client_securely req =
     (let user_agent = header_source req ''user-agent'';
          referer = header_source req ''referer'';
          origin = header_source req ''origin''
      in case find (\<lambda>(client, patterns).
                     list_ex (\<lambda>pattern.
                       list_ex (\<lambda>src. is_substring pattern src) [user_agent, referer, origin])
                       patterns)
                client_patterns of
           Some (client, patterns) \<Rightarrow> client
         | None \<Rightarrow> ''unknown'')"

subsection \<open>middleware/security.py\<close>

definition security_headers :: "(string \<times> string) list" where
  "security_headers =
     [(''X-Content-Type-Options'', ''nosniff''),
      (''X-Frame-Options'', ''DENY''),
      (''X-XSS-Protection'', ''1; mode=block''),
      (''Strict-Transport-Security'', ''max-age=31536000; includeSubDomains''),
      (''Content-Security-Policy'',
       ''default-src '' @ [squote] @ ''self'' @ [squote] @ ''; script-src '' @ [squote] @ ''self''
         @ [squote] @ ''; style-src '' @ [squote] @ ''self'' @ [squote] @ '' '' @ [squote]
         @ ''unsafe-inline'' @ [squote] @ '';''),
      (''Referrer-Policy'', ''strict-origin-when-cross-origin''),
      (''Permissions-Policy'', ''geolocation=(), microphone=(), camera=()''),
      (''Cache-Control'', ''no-store, no-cache, must-revalidate, private''),
      (''Pragma'', ''no-cache''),
      (''Expires'', ''0'')]"

text \<open>\<open>add_security_headers\<close>, applied to the response that \<open>call_next\<close> returned.\<close>

definition add_security_headers :: "'f Response \<Rightarrow> 'f Response" where
  "add_security_headers response =
     (let hs1 = foldl (\<lambda>hs (header_name, header_value). headers_setitem hs header_name header_value)
                  (raw_headers response) security_headers;
          hs2 = (if ''server'' \<in> set (map fst hs1) then headers_delitem hs1 ''server'' else hs1);
          hs3 = headers_setitem hs2 ''ngrok-skip-browser-warning'' ''true''
      in response\<lparr>raw_headers := hs3\<rparr>)"

section \<open>The protocol endpoints (main.py)\<close>

text \<open>
  The configuration that the endpoints read: the identity provider's two URLs and the
  scopes from \<open>COGNITO_CONFIG\<close>, and the client id of each entry of \<open>CLIENT_CONFIGS\<close>.
\<close>

record server_config =
  authorization_url :: string
  token_url :: string
  scopes :: "string list"
  claude_client_id :: string
  julius_client_id :: string
  default_client_id :: string

text \<open>\<open>CLIENT_CONFIGS.get(client_type, CLIENT_CONFIGS["default"])["client_id"]\<close>\<close>

definition client_config_id :: "server_config \<Rightarrow> string \<Rightarrow> string" where
  "client_config_id cfg client_type =
     (if client_type = ''claude'' then claude_client_id cfg
      else if client_type = ''julius'' then julius_client_id cfg
      else default_client_id cfg)"

definition capabilities :: "'f pyval" where
  "capabilities =
     PDict [(''tools'', PDict [(''listChanged'', PBool True)]),
            (''prompts'', PDict []),
            (''resources'', PDict [])]"

definition mcp_get :: "server_config \<Rightarrow> request \<Rightarrow> 'f Response" where
  "mcp_get cfg req =
     (let client_type = detect_client_securely req;
          metadata =
            [(''mcpVersion'', PStr ''2025-06-18''),
             (''server'', PDict [(''name'', PStr ''Secure MCP Server''), (''version'', PStr ''1.0.0'')]),
             (''capabilities'', capabilities)];
          auth_header = headers_get req ''authorization'';
          authenticated =
            (case auth_header of
               None \<Rightarrow> False
             | Some h \<Rightarrow> h \<noteq> [] \<and> is_prefix ''Bearer '' h);
          metadata' =
            (if \<not> authenticated then
               dict_set metadata ''authentication''
                 (PDict [(''type'', PStr ''oauth2''),
                         (''oauth2'',
                          PDict [(''authorizationUrl'', PStr (authorization_url cfg)),
                                 (''tokenUrl'', PStr (token_url cfg)),
                                 (''clientId'', PStr (client_config_id cfg client_type)),
                                 (''scopes'', PList (map PStr (scopes cfg)))])])
             else metadata)
      in \<lparr>status_code = 200, body = Some (PDict metadata'),
          media_type = Some ''application/json'', raw_headers = []\<rparr>)"

definition mcp_head :: "request \<Rightarrow> 'f Response" where
  "mcp_head req = \<lparr>status_code = 200, body = None, media_type = None, raw_headers = []\<rparr>"

text \<open>
  \<open>MCPRequest\<close> and \<open>MCPResponse\<close>. \<open>params\<close> is a dictionary or \<open>None\<close>; an \<open>id\<close>,
  \<open>result\<close> or \<open>error\<close> that is \<open>None\<close> is \<open>PNone\<close>. \<open>model_dump_json\<close> writes the four
  fields of the response in their order, a \<open>None\<close> as \<open>null\<close>.
\<close>

record 'f MCPRequest =
  mcp_jsonrpc :: string
  mcp_method :: string
  mcp_params :: "'f pydict option"
  mcp_id :: "'f pyval"

record 'f MCPResponse =
  resp_jsonrpc :: string
  resp_result :: "'f pyval"
  resp_error :: "'f pyval"
  resp_id :: "'f pyval"

definition model_dump_json :: "'f MCPResponse \<Rightarrow> 'f pyval" where
  "model_dump_json r =
     PDict [(''jsonrpc'', PStr (resp_jsonrpc r)),
            (''result'', resp_result r),
            (''error'', resp_error r),
            (''id'', resp_id r)]"

text \<open>
  A field is present in a serialized body when the JSON object has a member of that name.
\<close>

definition body_has_field :: "'f Response \<Rightarrow> string \<Rightarrow> bool" where
  "body_has_field r k = (case body r of Some (PDict d) \<Rightarrow> k \<in> set (map fst d) | _ \<Rightarrow> False)"

definition json_response :: "nat \<Rightarrow> 'f MCPResponse \<Rightarrow> 'f Response" where
  "json_response status response =
     \<lparr>status_code = status, body = Some (model_dump_json response),
      media_type = Some ''application/json'',
      raw_headers = init_headers [(''MCP-Protocol-Version'', ''2025-06-18'')]\<rparr>"

definition result_response :: "'f pyval \<Rightarrow> 'f pyval \<Rightarrow> 'f MCPResponse" where
  "result_response r i = \<lparr>resp_jsonrpc = ''2.0'', resp_result = r, resp_error = PNone, resp_id = i\<rparr>"

definition error_response :: "'f pydict \<Rightarrow> 'f pyval \<Rightarrow> 'f MCPResponse" where
  "error_response e i = \<lparr>resp_jsonrpc = ''2.0'', resp_result = PNone, resp_error = PDict e, resp_id = i\<rparr>"

text \<open>
  The body of the \<open>try\<close> in \<open>mcp_handler\<close>: a response, or the exception that leaves it.
  In \<open>tools/call\<close> only the \<open>ValueError\<close> of the registry (no such tool) is caught.
\<close>

definition mcp_dispatch :: "'f python \<Rightarrow> registry \<Rightarrow> 'f MCPRequest \<Rightarrow> py_exception + 'f Response" where
  "mcp_dispatch P reg mcp_request =
     (if mcp_method mcp_request = ''initialize'' then
        Inr (json_response 200
          (result_response
            (PDict [(''protocolVersion'', PStr ''2025-06-18''),
                    (''capabilities'', capabilities),
                    (''serverInfo'',
                     PDict [(''name'', PStr ''Secure MCP Server with AWS Cognito OAuth2''),
                            (''version'', PStr ''1.0.0'')])])
            (mcp_id mcp_request)))
      else if mcp_method mcp_request = ''notifications/initialized'' then
        Inr (json_response 202
          (result_response (PDict [])
            (if py_truthy P (mcp_id mcp_request) then mcp_id mcp_request else PNone)))
      else if mcp_method mcp_request = ''tools/list'' then
        Inr (json_response 200
          (result_response (PDict [(''tools'', PList (list_tools P reg))]) (mcp_id mcp_request)))
      else if mcp_method mcp_request = ''prompts/list'' then
        Inr (json_response 200
          (result_response (PDict [(''prompts'', PList [])]) (mcp_id mcp_request)))
      else if mcp_method mcp_request = ''resources/list'' then
        Inr (json_response 200
          (result_response (PDict [(''resources'', PList [])]) (mcp_id mcp_request)))
      else if mcp_method mcp_request = ''tools/call'' then
        (case mcp_params mcp_request of
           None \<Rightarrow> Inl (AttributeError (msg_unsupported P ''get'' ''NoneType''))
         | Some params \<Rightarrow>
             (let name = dict_get_default params ''name'' PNone;
                  arguments = dict_get_default params ''arguments'' (PDict [])
              in case execute_tool P reg name arguments of
                   Inr result \<Rightarrow>
                     Inr (json_response 200
                       (result_response
                         (PDict [(''content'', PList (map PDict (content result)))])
                         (mcp_id mcp_request)))
                 | Inl (ValueError m) \<Rightarrow>
                     Inr (json_response 200
                       (error_response
                         [(''code'', PInt (- 32602)),
                          (''message'', PStr (''Unknown tool: '' @ py_str P name))]
                         (mcp_id mcp_request)))
                 | Inl e \<Rightarrow> Inl e))
      else
        Inr (json_response 200
          (error_response
            [(''code'', PInt (- 32601)),
             (''message'', PStr (''Method not found: '' @ mcp_method mcp_request))]
            (mcp_id mcp_request))))"

text \<open>
  \<open>SecureErrorHandler.get_safe_error_message\<close> looks the exception's own class up in a
  table; a class that the table does not list (a subclass of a listed one too) gets the
  default text.
\<close>

fun safe_error_message :: "py_exception \<Rightarrow> string" where
  "safe_error_message (ExpiredSignatureError m) = ''Token has expired''"
| "safe_error_message (InvalidTokenError m) = ''Invalid authentication token''"
| "safe_error_message (ValueError m) = ''Invalid request data''"
| "safe_error_message (TypeError m) = ''Invalid data type''"
| "safe_error_message (InvalidTokenSubclass m) = ''An error occurred processing your request''"
| "safe_error_message (AttributeError m) = ''An error occurred processing your request''"
| "safe_error_message (OtherError m) = ''An error occurred processing your request''"

text \<open>
  \<open>mcp_handler\<close>: \<open>request_id\<close> is the value of \<open>secrets.token_hex(8)\<close> drawn for the request.
\<close>

definition mcp_handler :: "'f python \<Rightarrow> registry \<Rightarrow> string \<Rightarrow> 'f MCPRequest \<Rightarrow> 'f Response" where
  "mcp_handler P reg request_id mcp_request =
     (case mcp_dispatch P reg mcp_request of
        Inr response \<Rightarrow> response
      | Inl e \<Rightarrow>
          json_response 500
            (error_response
              [(''code'', PInt (- 32603)),
               (''message'', PStr (safe_error_message e)),
               (''data'', PDict [(''error_id'', PStr request_id)])]
              (mcp_id mcp_request)))"

section \<open>Concrete inputs\<close>

text \<open>
  The theorems below hold for every instance of the interpreter's parameters. Where one
  is evaluated on a concrete input, this instance is used: a float is a rational number
  with exact arithmetic, and the messages only name the operation and the type. The
  other constants of this section are a configuration and requests to evaluate on.
\<close>

definition sample_python :: "rat python" where
  "sample_python =
     \<lparr>f_of_int = of_int, f_add = (\<lambda>x y. x + y), f_exceeds = (\<lambda>x. \<bar>x\<bar> > 10 ^ 10),
      f_nonzero = (\<lambda>x. x \<noteq> 0), f_eq = (\<lambda>x y. x = y), f_eq_int = (\<lambda>x i. x = of_int i),
      f_str = (\<lambda>x. ''<float>''), f_val = (\<lambda>x. x),
      msg_unsupported = (\<lambda>operation ty. ''unsupported: '' @ operation @ '' on '' @ ty)\<rparr>"

definition sample_config :: server_config where
  "sample_config =
     \<lparr>authorization_url = ''https://idp.example/authorize'',
      token_url = ''https://idp.example/token'', scopes = [''openid''],
      claude_client_id = ''c1'', julius_client_id = ''c2'', default_client_id = ''c3''\<rparr>"

definition sample_request :: request where
  "sample_request = \<lparr>req_headers = [], remote_address = ''192.168.0.9''\<rparr>"

definition sample_initialize :: "rat MCPRequest" where
  "sample_initialize =
     \<lparr>mcp_jsonrpc = ''2.0'', mcp_method = ''initialize'', mcp_params = Some [], mcp_id = PInt 1\<rparr>"

definition sample_notification :: "rat MCPRequest" where
  "sample_notification =
     \<lparr>mcp_jsonrpc = ''2.0'', mcp_method = ''notifications/initialized'', mcp_params = Some [],
      mcp_id = PNone\<rparr>"





text \<open>
  For token verification: a configuration, a key set, and a stand-in for the JWT library.
  The stand-in knows four tokens and their payloads; of the registered claims it checks
  only the audience, and only when asked to (\<open>verify_aud\<close>). The clock \<open>sample_now\<close> is
  100 seconds after the \<open>iat\<close> of the fresh payloads and before every \<open>exp\<close>.
\<close>

definition sample_cognito :: cognito_config where
  "sample_cognito =
     \<lparr>user_pool_id = ''us-east-1_Pool'', client_id = Some ''client-1'', region = ''us-east-1'',
      jwks_url = ''https://cognito-idp.us-east-1.amazonaws.com/us-east-1_Pool/.well-known/jwks.json''\<rparr>"

definition sample_http_get :: "string \<Rightarrow> rat fetch_outcome" where
  "sample_http_get url =
     FetchJson (PDict [(''keys'', PList [PDict [(''kid'', PStr ''key-1''), (''kty'', PStr ''RSA'')]])])"

definition fresh_claims :: "rat pydict" where
  "fresh_claims =
     [(''sub'', PStr ''user-1''), (''token_use'', PStr ''id''),
      (''iss'', PStr ''https://cognito-idp.us-east-1.amazonaws.com/us-east-1_Pool''),
      (''iat'', PInt 1700000000), (''exp'', PInt 1700200000)]"

definition sample_tokens :: "(string \<times> rat pydict) list" where
  "sample_tokens =
     [(''hdr.noaud.sig'', fresh_claims),
      (''hdr.otheraud.sig'', fresh_claims @ [(''aud'', PStr ''client-2'')]),
      (''hdr.old.sig'',
       [(''sub'', PStr ''user-1''), (''token_use'', PStr ''id''),
        (''iat'', PInt 1699900000), (''exp'', PInt 1700200000)]),
      (''hdr.nosub.sig'',
       [(''token_use'', PStr ''id''), (''iat'', PInt 1700000000), (''exp'', PInt 1700200000)])]"

definition sample_jwt_library :: "(rat, string) jwt_library" where
  "sample_jwt_library =
     \<lparr>get_unverified_header = (\<lambda>token. Inr [(''alg'', PStr ''RS256''), (''kid'', PStr ''key-1'')]),
      from_jwk = (\<lambda>key. Inr ''public-key-1''),
      jwt_decode = (\<lambda>call.
        case map_of sample_tokens (dc_token call) of
          None \<Rightarrow> Inl (InvalidTokenError ''Invalid payload'')
        | Some payload \<Rightarrow>
            if verify_aud (dc_options call) = Some True
               \<and> (dc_audience call = None
                    \<or> map_of payload ''aud'' \<noteq> map_option PStr (dc_audience call))
            then Inl (InvalidTokenSubclass ''Invalid audience'')
            else Inr payload)\<rparr>"

definition sample_now :: rat where
  "sample_now = 1700000100"

section \<open>Verified properties\<close>

subsection \<open>The add tool\<close>

text \<open>
  Claim C8. The add tool invoked through \<open>safe_execute\<close> with \<open>a = 2\<close> and \<open>b = 3\<close> returns a
  result that is no error and whose text is \<open>2 + 3 = 5\<close>. Invoked with \<open>a = "x"\<close> and
  \<open>b = 1\<close>, validation raises a \<open>ValueError\<close>, and \<open>safe_execute\<close> does not pass it on: it
  returns a result flagged as an error. This holds whatever the interpreter's floats and
  messages are.
\<close>

theorem add_tool_safe_execute:
  "safe_execute P AddTool (PDict [(''a'', PInt 2), (''b'', PInt 3)])
     = \<lparr>content = text_content ''2 + 3 = 5'', isError = False\<rparr>
   \<and> validate_arguments P (input_schema P AddTool) (PDict [(''a'', PStr ''x''), (''b'', PInt 1)])
     = Inl (ValueError (''Field '' @ [squote] @ ''a'' @ [squote] @ '' must be a number''))
   \<and> safe_execute P AddTool (PDict [(''a'', PStr ''x''), (''b'', PInt 1)])
     = \<lparr>content = text_content
          (''Validation error: Field '' @ [squote] @ ''a'' @ [squote] @ '' must be a number''),
        isError = True\<rparr>"
proof -
  have ok: "safe_execute P AddTool (PDict [(''a'', PInt 2), (''b'', PInt 3)])
     = \<lparr>content = text_content ''2 + 3 = 5'', isError = False\<rparr>"
    by (simp add: safe_execute_def validate_arguments_def check_field_type_def dict_get_def
        dict_get_default_def add_execute_def py_add_def str_int_def digits10.simps)
  have rejected:
    "validate_arguments P (input_schema P AddTool) (PDict [(''a'', PStr ''x''), (''b'', PInt 1)])
     = Inl (ValueError (''Field '' @ [squote] @ ''a'' @ [squote] @ '' must be a number''))"
    by (simp add: validate_arguments_def check_field_type_def dict_get_def)
  have flagged: "safe_execute P AddTool (PDict [(''a'', PStr ''x''), (''b'', PInt 1)])
     = \<lparr>content = text_content
          (''Validation error: Field '' @ [squote] @ ''a'' @ [squote] @ '' must be a number''),
        isError = True\<rparr>"
    by (simp only: safe_execute_def rejected) simp
  from ok rejected flagged show ?thesis by blast
qed

text \<open>
  Claim C9. A boolean, \<open>True\<close> or \<open>False\<close>, passes the \<open>number\<close> test of schema validation
  (for any field) and the numeric guard of the add tool, since a Python \<open>bool\<close> is an
  \<open>int\<close>. So the add tool takes booleans for \<open>a\<close> and \<open>b\<close>: validation returns them, and
  the result is no error and shows the sum of the truth values. With \<open>a = True\<close> and
  \<open>b = 3\<close> the tool returns the text \<open>True + 3 = 4\<close>.
\<close>

theorem add_tool_accepts_bool:
  "isinstance_int_float (PBool x)
   \<and> check_field_type [(''type'', PStr ''number'')] fld (PBool x) = None
   \<and> validate_arguments P (input_schema P AddTool) (PDict [(''a'', PBool x), (''b'', PBool y)])
     = Inr [(''a'', PBool x), (''b'', PBool y)]
   \<and> safe_execute P AddTool (PDict [(''a'', PBool x), (''b'', PBool y)])
     = \<lparr>content = text_content
          ((if x then ''True'' else ''False'') @ '' + '' @ (if y then ''True'' else ''False'')
             @ '' = '' @ (if x \<and> y then ''2'' else if x \<or> y then ''1'' else ''0'')),
        isError = False\<rparr>
   \<and> safe_execute P AddTool (PDict [(''a'', PBool x), (''b'', PInt 3)])
     = \<lparr>content = text_content
          ((if x then ''True'' else ''False'') @ '' + 3 = '' @ (if x then ''4'' else ''3'')),
        isError = False\<rparr>
   \<and> safe_execute P AddTool (PDict [(''a'', PBool True), (''b'', PInt 3)])
     = \<lparr>content = text_content ''True + 3 = 4'', isError = False\<rparr>"
proof -
  have guard: "isinstance_int_float (PBool x)"
    by simp
  have passes: "check_field_type [(''type'', PStr ''number'')] fld (PBool x) = None"
    by (simp add: check_field_type_def dict_get_def)
  have valid:
    "validate_arguments P (input_schema P AddTool) (PDict [(''a'', PBool x), (''b'', PBool y)])
     = Inr [(''a'', PBool x), (''b'', PBool y)]"
    by (simp add: validate_arguments_def check_field_type_def dict_get_def)
  have both: "safe_execute P AddTool (PDict [(''a'', PBool x), (''b'', PBool y)])
     = \<lparr>content = text_content
          ((if x then ''True'' else ''False'') @ '' + '' @ (if y then ''True'' else ''False'')
             @ '' = '' @ (if x \<and> y then ''2'' else if x \<or> y then ''1'' else ''0'')),
        isError = False\<rparr>"
    by (cases x; cases y)
      (simp_all add: safe_execute_def validate_arguments_def check_field_type_def dict_get_def
        dict_get_default_def add_execute_def py_add_def str_int_def digits10.simps)
  have one: "safe_execute P AddTool (PDict [(''a'', PBool x), (''b'', PInt 3)])
     = \<lparr>content = text_content
          ((if x then ''True'' else ''False'') @ '' + 3 = '' @ (if x then ''4'' else ''3'')),
        isError = False\<rparr>"
    by (cases x)
      (simp_all add: safe_execute_def validate_arguments_def check_field_type_def dict_get_def
        dict_get_default_def add_execute_def py_add_def str_int_def digits10.simps)
  have sum: "safe_execute P AddTool (PDict [(''a'', PBool True), (''b'', PInt 3)])
     = \<lparr>content = text_content ''True + 3 = 4'', isError = False\<rparr>"
    by (simp add: safe_execute_def validate_arguments_def check_field_type_def dict_get_def
        dict_get_default_def add_execute_def py_add_def str_int_def digits10.simps)
  from guard passes valid both one sum show ?thesis by blast
qed

subsection \<open>Fields that the schema does not name\<close>

lemma dict_set_fresh: "k \<notin> set (map fst d) \<Longrightarrow> dict_set d k v = d @ [(k, v)]"
  by (induction d) auto

lemma missing_fields_dict:
  "missing_fields P (PDict d) req = Inr (filter (\<lambda>f. f \<notin> set (map fst d)) req)"
  by (induction req) auto

lemma validate_fields_result:
  "validate_fields props items acc = Inr v \<Longrightarrow> distinct (map fst (acc @ items))
     \<Longrightarrow> v = acc @ items"
proof (induction items arbitrary: acc)
  case Nil
  then show ?case by simp
next
  case (Cons item items)
  obtain k x where item: "item = (k, x)" by (cases item)
  from Cons.prems(2) item have fresh: "k \<notin> set (map fst acc)" by auto
  from Cons.prems(2) item have d: "distinct (map fst ((acc @ [(k, x)]) @ items))" by auto
  from Cons.prems(1) item fresh
  have "validate_fields props items (acc @ [(k, x)]) = Inr v"
    by (auto simp: dict_set_fresh split: option.splits)
  from Cons.IH [OF this d] item show ?case by simp
qed

lemma validate_fields_unknown:
  "k \<notin> set (map fst props) \<Longrightarrow>
   validate_fields props (xs @ (k, x) # ys) acc
     = (case validate_fields props xs acc of
          Inl e \<Rightarrow> Inl e
        | Inr acc' \<Rightarrow> validate_fields props ys (dict_set acc' k x))"
proof (induction xs arbitrary: acc)
  case Nil
  then have "map_of props k = None" by (simp add: map_of_eq_None_iff)
  then show ?case by simp
next
  case (Cons item xs)
  then show ?case by (cases item) (auto split: option.splits)
qed

lemma validate_fields_append:
  "validate_fields props (xs @ ys) acc
     = (case validate_fields props xs acc of
          Inl e \<Rightarrow> Inl e
        | Inr acc' \<Rightarrow> validate_fields props ys acc')"
proof (induction xs arbitrary: acc)
  case Nil
  show ?case by simp
next
  case (Cons item xs)
  then show ?case by (cases item) (auto split: option.splits)
qed

lemma validate_fields_acc:
  "validate_fields props items acc = Inr v \<Longrightarrow> \<exists>w. validate_fields props items acc' = Inr w"
proof (induction items arbitrary: acc acc' v)
  case Nil
  show ?case by simp
next
  case (Cons item items)
  then show ?case by (cases item) (fastforce split: option.splits)
qed

text \<open>
  Claim C10. A field of the arguments whose name is not in the schema's properties is
  never rejected by validation and reaches the tool unchanged, next to the validated
  fields. For arguments with the field \<open>k\<close> at any place (a dictionary: its keys are
  distinct): when validation succeeds its result is the arguments themselves, the field
  included, at its place; when the arguments without the field pass validation, so do the
  arguments with it; and \<open>safe_execute\<close> runs the tool on that result.
\<close>

theorem unknown_fields_pass_through:
  assumes keys: "distinct (map fst (xs @ (k, x) # ys))"
    and unknown: "k \<notin> set (map fst (properties schema))"
  shows "(\<forall>v. validate_arguments P schema (PDict (xs @ (k, x) # ys)) = Inr v
            \<longrightarrow> v = xs @ (k, x) # ys)
       \<and> ((\<exists>v. validate_arguments P schema (PDict (xs @ ys)) = Inr v)
            \<longrightarrow> validate_arguments P schema (PDict (xs @ (k, x) # ys)) = Inr (xs @ (k, x) # ys))
       \<and> (\<forall>t. validate_arguments P (input_schema P t) (PDict (xs @ (k, x) # ys))
                 = Inr (xs @ (k, x) # ys)
            \<longrightarrow> safe_execute P t (PDict (xs @ (k, x) # ys))
                 = (case execute P t (xs @ (k, x) # ys) of
                      Inl e \<Rightarrow> error_result e
                    | Inr result \<Rightarrow> result))"
proof (intro conjI allI impI)
  fix v
  assume "validate_arguments P schema (PDict (xs @ (k, x) # ys)) = Inr v"
  then have "validate_fields (properties schema) (xs @ (k, x) # ys) [] = Inr v"
    by (auto simp: validate_arguments_def missing_fields_dict split: if_splits)
  from validate_fields_result [OF this] keys show "v = xs @ (k, x) # ys" by simp
next
  assume "\<exists>v. validate_arguments P schema (PDict (xs @ ys)) = Inr v"
  then obtain v where ok: "validate_arguments P schema (PDict (xs @ ys)) = Inr v" ..
  then have none_missing: "filter (\<lambda>f. f \<notin> set (map fst (xs @ ys))) (required schema) = []"
    and fields: "validate_fields (properties schema) (xs @ ys) [] = Inr v"
    by (auto simp: validate_arguments_def missing_fields_dict split: if_splits)
  from none_missing
  have none_missing': "filter (\<lambda>f. f \<notin> set (map fst (xs @ (k, x) # ys))) (required schema) = []"
    by (auto simp: filter_empty_conv)
  from fields obtain acc' where xs_ok: "validate_fields (properties schema) xs [] = Inr acc'"
    and ys_ok: "validate_fields (properties schema) ys acc' = Inr v"
    by (auto simp: validate_fields_append split: sum.splits)
  from validate_fields_acc [OF ys_ok]
  obtain w where "validate_fields (properties schema) ys (dict_set acc' k x) = Inr w" by blast
  with xs_ok unknown
  have all_ok: "validate_fields (properties schema) (xs @ (k, x) # ys) [] = Inr w"
    by (simp add: validate_fields_unknown)
  from validate_fields_result [OF this] keys have "w = xs @ (k, x) # ys" by simp
  with all_ok none_missing'
  show "validate_arguments P schema (PDict (xs @ (k, x) # ys)) = Inr (xs @ (k, x) # ys)"
    by (simp add: validate_arguments_def missing_fields_dict)
next
  fix t
  assume "validate_arguments P (input_schema P t) (PDict (xs @ (k, x) # ys))
            = Inr (xs @ (k, x) # ys)"
  then show "safe_execute P t (PDict (xs @ (k, x) # ys))
               = (case execute P t (xs @ (k, x) # ys) of
                    Inl e \<Rightarrow> error_result e
                  | Inr result \<Rightarrow> result)"
    by (simp add: safe_execute_def)
qed

theorem unknown_fields_pass_through_witness:
  "validate_arguments sample_python (input_schema sample_python AddTool)
     (PDict [(''a'', PInt 2), (''note'', PStr ''hi''), (''b'', PInt 3)])
     = Inr [(''a'', PInt 2), (''note'', PStr ''hi''), (''b'', PInt 3)]
   \<and> safe_execute sample_python AddTool
       (PDict [(''a'', PInt 2), (''note'', PStr ''hi''), (''b'', PInt 3)])
     = \<lparr>content = text_content ''2 + 3 = 5'', isError = False\<rparr>"
proof -
  have keys: "distinct (map fst ([(''a'', PInt 2)] @ (''note'', PStr ''hi'') # [(''b'', PInt (3::int) :: rat pyval)]))"
    by simp
  have unknown: "''note'' \<notin> set (map fst (properties (input_schema sample_python AddTool)))"
    by simp
  have without: "\<exists>v. validate_arguments sample_python (input_schema sample_python AddTool)
      (PDict ([(''a'', PInt 2)] @ [(''b'', PInt 3)])) = Inr v"
    by (simp add: validate_arguments_def check_field_type_def dict_get_def)
  have run: "execute sample_python AddTool [(''a'', PInt 2), (''note'', PStr ''hi''), (''b'', PInt 3)]
      = Inr \<lparr>content = text_content ''2 + 3 = 5'', isError = False\<rparr>"
    by (simp add: dict_get_default_def add_execute_def py_add_def str_int_def digits10.simps)
  from unknown_fields_pass_through [OF keys unknown, of sample_python] without run
  show ?thesis by simp
qed

subsection \<open>The client key of the rate limiter\<close>

lemma split_on_nonempty: "split_on c s \<noteq> []"
  by (induction s) (auto split: list.splits)

lemma hd_split_on: "hd (split_on c s) = takeWhile (\<lambda>x. x \<noteq> c) s"
proof (induction s)
  case Nil
  show ?case by simp
next
  case (Cons x xs)
  then show ?case using split_on_nonempty [of c xs] by (auto split: list.splits)
qed

lemma py_strip_trimmed:
  "py_strip s = [] \<or> \<not> py_isspace (hd (py_strip s)) \<and> \<not> py_isspace (last (py_strip s))"
proof (cases "py_strip s = []")
  case True
  then show ?thesis by simp
next
  case False
  define t where "t = dropWhile py_isspace s"
  define u where "u = dropWhile py_isspace (rev t)"
  have strip: "py_strip s = rev u" by (simp add: py_strip_def t_def u_def)
  with False have u: "u \<noteq> []" by simp
  then have "\<not> py_isspace (hd u)" unfolding u_def by (rule hd_dropWhile)
  with u have last_ok: "\<not> py_isspace (last (rev u))" by (simp add: last_rev)
  from u have "rev t \<noteq> []" unfolding u_def by auto
  then have t: "t \<noteq> []" by simp
  then have hd_t: "\<not> py_isspace (hd t)" unfolding t_def by (rule hd_dropWhile)
  obtain ws where ws: "rev t = ws @ u" unfolding u_def
    by (metis takeWhile_dropWhile_id)
  then have "t = rev u @ rev ws" by (metis rev_append rev_rev_ident)
  with u have "hd (rev u) = hd t" by simp
  with hd_t last_ok strip show ?thesis by simp
qed

text \<open>
  Claim C7, as amended. The key is the first comma-separated entry of \<open>X-Forwarded-For\<close>,
  trimmed, when that header is present and not empty; otherwise the value of \<open>X-Real-IP\<close>
  when that header is present and not empty; otherwise the peer address. (The entry
  before the first comma is \<open>takeWhile\<close> up to it; \<open>py_strip_trimmed\<close> says what trimmed
  means.) As stated, with "present" alone, the claim fails: an \<open>X-Forwarded-For\<close> header
  with an empty value is passed over, as the counterexample below shows.
\<close>

theorem client_key_derivation:
  "get_real_client_ip req =
     (case headers_get req ''x-forwarded-for'' of
        Some (c # cs) \<Rightarrow> py_strip (takeWhile (\<lambda>x. x \<noteq> CHR '','') (c # cs))
      | _ \<Rightarrow>
          (case headers_get req ''x-real-ip'' of
             Some (c # cs) \<Rightarrow> c # cs
           | _ \<Rightarrow> remote_address req))"
  by (simp add: get_real_client_ip_def hd_split_on Let_def split: option.splits list.splits)

theorem client_key_derivation_witness:
  "get_real_client_ip
     \<lparr>req_headers = [(''x-forwarded-for'', '' 203.0.113.7 , 10.0.0.1''), (''x-real-ip'', ''10.0.0.2'')],
      remote_address = ''192.168.0.9''\<rparr> = ''203.0.113.7''
   \<and> get_real_client_ip
     \<lparr>req_headers = [(''x-forwarded-for'', []), (''x-real-ip'', ''10.0.0.2'')],
      remote_address = ''192.168.0.9''\<rparr> = ''10.0.0.2''
   \<and> get_real_client_ip
     \<lparr>req_headers = [(''x-forwarded-for'', []), (''x-real-ip'', [])],
      remote_address = ''192.168.0.9''\<rparr> = ''192.168.0.9''"
proof -
  have a: "headers_get \<lparr>req_headers = [(''x-forwarded-for'', '' 203.0.113.7 , 10.0.0.1''), (''x-real-ip'', ''10.0.0.2'')],
      remote_address = ''192.168.0.9''\<rparr> ''x-forwarded-for'' = Some '' 203.0.113.7 , 10.0.0.1''"
    by code_simp
  have a': "py_strip (takeWhile (\<lambda>x. x \<noteq> CHR '','') '' 203.0.113.7 , 10.0.0.1'') = ''203.0.113.7''"
    by code_simp
  have b: "headers_get \<lparr>req_headers = [(''x-forwarded-for'', []), (''x-real-ip'', ''10.0.0.2'')],
      remote_address = ''192.168.0.9''\<rparr> ''x-forwarded-for'' = Some []"
    "headers_get \<lparr>req_headers = [(''x-forwarded-for'', []), (''x-real-ip'', ''10.0.0.2'')],
      remote_address = ''192.168.0.9''\<rparr> ''x-real-ip'' = Some ''10.0.0.2''"
    by code_simp+
  have c: "headers_get \<lparr>req_headers = [(''x-forwarded-for'', []), (''x-real-ip'', [])],
      remote_address = ''192.168.0.9''\<rparr> ''x-forwarded-for'' = Some []"
    "headers_get \<lparr>req_headers = [(''x-forwarded-for'', []), (''x-real-ip'', [])],
      remote_address = ''192.168.0.9''\<rparr> ''x-real-ip'' = Some []"
    by code_simp+
  show ?thesis
    by (simp only: client_key_derivation a b c a' option.case list.case select_convs) simp
qed

theorem client_key_empty_header_counterexample:
  "get_real_client_ip
     \<lparr>req_headers = [(''x-forwarded-for'', []), (''x-real-ip'', ''10.0.0.2'')],
      remote_address = ''192.168.0.9''\<rparr> = ''10.0.0.2''
   \<and> spec_client_key
     \<lparr>req_headers = [(''x-forwarded-for'', []), (''x-real-ip'', ''10.0.0.2'')],
      remote_address = ''192.168.0.9''\<rparr> = []
   \<and> get_real_client_ip
     \<lparr>req_headers = [(''x-forwarded-for'', []), (''x-real-ip'', ''10.0.0.2'')],
      remote_address = ''192.168.0.9''\<rparr>
     \<noteq> spec_client_key
     \<lparr>req_headers = [(''x-forwarded-for'', []), (''x-real-ip'', ''10.0.0.2'')],
      remote_address = ''192.168.0.9''\<rparr>"
  by code_simp


subsection \<open>The protocol-version header\<close>

lemma map_of_filter_other:
  "map_of (filter (\<lambda>(a, b). a \<noteq> k) hs) k' = (if k' = k then None else map_of hs k')"
  by (induction hs) auto

lemma map_of_replace_first:
  "map_of (takeWhile (\<lambda>(a, b). a \<noteq> k) hs @ [(k, v)]
            @ filter (\<lambda>(a, b). a \<noteq> k) (dropWhile (\<lambda>(a, b). a \<noteq> k) hs)) k'
     = (if k' = k then Some v else map_of hs k')"
  by (induction hs) (auto simp: map_of_filter_other)

lemma map_of_setitem:
  "map_of (headers_setitem hs name v) k = (if k = py_lower name then Some v else map_of hs k)"
proof (cases "py_lower name \<in> set (map fst hs)")
  case True
  then show ?thesis
    by (simp only: headers_setitem_def Let_def if_True map_of_replace_first)
next
  case False
  then have "map_of hs (py_lower name) = None" by (simp add: map_of_eq_None_iff)
  with False show ?thesis by (auto simp: headers_setitem_def Let_def map_add_def split: option.splits)
qed

lemma map_of_delitem:
  "map_of (headers_delitem hs name) k = (if k = py_lower name then None else map_of hs k)"
  by (simp add: headers_delitem_def map_of_filter_other)

lemma lower_name: "py_lower ''MCP-Protocol-Version'' = ''mcp-protocol-version''"
  by code_simp

lemma foldl_setitem_other:
  "k \<notin> set (map (\<lambda>(n, v). py_lower n) kvs) \<Longrightarrow>
   map_of (foldl (\<lambda>hs (header_name, header_value). headers_setitem hs header_name header_value)
             hs kvs) k = map_of hs k"
  by (induction kvs arbitrary: hs) (auto simp: map_of_setitem)

lemma version_not_security_header:
  "''mcp-protocol-version'' \<notin> set (map (\<lambda>(n, v). py_lower n) security_headers)"
  by code_simp

lemma version_not_server: "''mcp-protocol-version'' \<noteq> py_lower ''server''"
  by code_simp

lemma version_not_ngrok: "''mcp-protocol-version'' \<noteq> py_lower ''ngrok-skip-browser-warning''"
  by code_simp

lemma security_headers_keep_version:
  "response_header (add_security_headers r) ''MCP-Protocol-Version''
     = response_header r ''MCP-Protocol-Version''"
  unfolding response_header_def lower_name
  by (simp add: add_security_headers_def Let_def map_of_setitem map_of_delitem
      version_not_server version_not_ngrok
      foldl_setitem_other [OF version_not_security_header])


lemma handler_headers:
  "raw_headers (mcp_handler P reg rid req) = init_headers [(''MCP-Protocol-Version'', ''2025-06-18'')]"
  by (auto simp: mcp_handler_def mcp_dispatch_def json_response_def Let_def
      split: sum.splits option.splits py_exception.splits)

lemma init_headers_version:
  "init_headers [(''MCP-Protocol-Version'', ''2025-06-18'')] = [(''mcp-protocol-version'', ''2025-06-18'')]"
  by code_simp

text \<open>
  Claim C6, as amended. Every response of the \<open>POST /mcp\<close> handler, whatever its status,
  carries the header \<open>MCP-Protocol-Version\<close> with the value \<open>2025-06-18\<close>, also after the
  security middleware, and that value is the protocol version the \<open>initialize\<close> result
  declares. The responses of \<open>GET /mcp\<close> and \<open>HEAD /mcp\<close> do not carry the header: their
  handlers set none, and the middleware neither adds nor removes it. As stated, for
  \<open>GET\<close>, \<open>HEAD\<close> and \<open>POST\<close> alike, the claim fails.
\<close>

theorem post_carries_protocol_version:
  "response_header (mcp_handler P reg rid req) ''MCP-Protocol-Version'' = Some ''2025-06-18''
   \<and> response_header (add_security_headers (mcp_handler P reg rid req)) ''MCP-Protocol-Version''
       = Some ''2025-06-18''
   \<and> (mcp_method req = ''initialize'' \<longrightarrow>
        (\<exists>result. body (mcp_handler P reg rid req)
             = Some (PDict [(''jsonrpc'', PStr ''2.0''), (''result'', PDict result),
                            (''error'', PNone), (''id'', mcp_id req)])
           \<and> dict_get result ''protocolVersion'' = Some (PStr ''2025-06-18'')))
   \<and> response_header (add_security_headers (mcp_get cfg r :: 'f Response)) ''MCP-Protocol-Version''
       = None
   \<and> response_header (add_security_headers (mcp_head r :: 'f Response)) ''MCP-Protocol-Version''
       = None"
proof -
  have post: "response_header (mcp_handler P reg rid req) ''MCP-Protocol-Version'' = Some ''2025-06-18''"
    by (simp add: response_header_def handler_headers init_headers_version lower_name)
  have declared: "mcp_method req = ''initialize'' \<longrightarrow>
        (\<exists>result. body (mcp_handler P reg rid req)
             = Some (PDict [(''jsonrpc'', PStr ''2.0''), (''result'', PDict result),
                            (''error'', PNone), (''id'', mcp_id req)])
           \<and> dict_get result ''protocolVersion'' = Some (PStr ''2025-06-18''))"
    by (simp add: mcp_handler_def mcp_dispatch_def json_response_def model_dump_json_def
        result_response_def dict_get_def)
  have get: "response_header (mcp_get cfg r :: 'f Response) ''MCP-Protocol-Version'' = None"
    by (simp add: response_header_def mcp_get_def Let_def)
  have head: "response_header (mcp_head r :: 'f Response) ''MCP-Protocol-Version'' = None"
    by (simp add: response_header_def mcp_head_def)
  from post declared get head show ?thesis
    by (simp only: security_headers_keep_version)
qed

theorem post_carries_protocol_version_witness:
  "response_header
      (add_security_headers (mcp_handler sample_python default_registry ''0123456789abcdef''
         sample_initialize))
      ''MCP-Protocol-Version'' = Some ''2025-06-18''
   \<and> (\<exists>result. body (mcp_handler sample_python default_registry ''0123456789abcdef''
                       sample_initialize)
             = Some (PDict [(''jsonrpc'', PStr ''2.0''), (''result'', PDict result),
                            (''error'', PNone), (''id'', mcp_id sample_initialize)])
           \<and> dict_get result ''protocolVersion'' = Some (PStr ''2025-06-18''))"
proof -
  have initialize: "mcp_method sample_initialize = ''initialize''"
    by (simp add: sample_initialize_def)
  from post_carries_protocol_version [of sample_python default_registry "''0123456789abcdef''"
      sample_initialize sample_config sample_request] initialize
  show ?thesis by blast
qed

theorem get_head_lack_protocol_version_counterexample:
  "status_code (add_security_headers (mcp_head sample_request :: rat Response)) = 200
   \<and> response_header (add_security_headers (mcp_head sample_request :: rat Response))
       ''MCP-Protocol-Version'' = None
   \<and> status_code (add_security_headers (mcp_get sample_config sample_request :: rat Response)) = 200
   \<and> response_header (add_security_headers (mcp_get sample_config sample_request :: rat Response))
       ''MCP-Protocol-Version'' = None"
  by (simp only: security_headers_keep_version)
    (simp add: response_header_def mcp_head_def mcp_get_def add_security_headers_def Let_def)

subsection \<open>The response envelope\<close>

text \<open>
  Claim C3, as amended. In every response of the \<open>POST /mcp\<close> handler the body has both
  members, \<open>result\<close> and \<open>error\<close>, and exactly one of the two is not \<open>null\<close>. As stated
  (exactly one is present, never both) the claim fails: \<open>model_dump_json\<close> writes the
  member that is \<open>None\<close> too, as \<open>null\<close>.
\<close>

theorem envelope_one_non_null:
  "\<exists>r e i. body (mcp_handler P reg rid req)
       = Some (PDict [(''jsonrpc'', PStr ''2.0''), (''result'', r), (''error'', e), (''id'', i)])
     \<and> (r = PNone) \<noteq> (e = PNone)"
  by (auto simp: mcp_handler_def mcp_dispatch_def json_response_def model_dump_json_def
      result_response_def error_response_def Let_def
      split: sum.splits option.splits py_exception.splits)

theorem envelope_both_fields_counterexample:
  "status_code (mcp_handler sample_python default_registry ''0123456789abcdef'' sample_initialize) = 200
   \<and> body_has_field (mcp_handler sample_python default_registry ''0123456789abcdef'' sample_initialize)
        ''result''
   \<and> body_has_field (mcp_handler sample_python default_registry ''0123456789abcdef'' sample_initialize)
        ''error''"
  by (simp add: body_has_field_def mcp_handler_def mcp_dispatch_def json_response_def
      model_dump_json_def result_response_def sample_initialize_def)

text \<open>
  Claim C4, as amended. A \<open>notifications/initialized\<close> request that carries no \<open>id\<close> is
  answered with status 202, and the body is the whole envelope: it has an \<open>id\<close> member,
  whose value is \<open>null\<close>.
\<close>

theorem notification_acknowledged:
  assumes "mcp_method req = ''notifications/initialized''"
    and "mcp_id req = PNone"
  shows "status_code (mcp_handler P reg rid req) = 202
       \<and> body (mcp_handler P reg rid req)
           = Some (PDict [(''jsonrpc'', PStr ''2.0''), (''result'', PDict []),
                          (''error'', PNone), (''id'', PNone)])"
  using assms
  by (simp add: mcp_handler_def mcp_dispatch_def json_response_def model_dump_json_def
      result_response_def)

theorem notification_acknowledged_witness:
  "status_code (mcp_handler sample_python default_registry ''0123456789abcdef'' sample_notification) = 202
   \<and> body (mcp_handler sample_python default_registry ''0123456789abcdef'' sample_notification)
       = Some (PDict [(''jsonrpc'', PStr ''2.0''), (''result'', PDict []),
                      (''error'', PNone), (''id'', PNone)])"
proof -
  have m: "mcp_method sample_notification = ''notifications/initialized''"
    by (simp add: sample_notification_def)
  have i: "mcp_id sample_notification = PNone"
    by (simp add: sample_notification_def)
  from notification_acknowledged [OF m i] show ?thesis .
qed

text \<open>
  The body of that response is not without an \<open>id\<close>: the member is there.
\<close>

theorem notification_body_has_id_counterexample:
  "mcp_method sample_notification = ''notifications/initialized''
   \<and> mcp_id sample_notification = PNone
   \<and> status_code (mcp_handler sample_python default_registry ''0123456789abcdef''
        sample_notification) = 202
   \<and> body_has_field (mcp_handler sample_python default_registry ''0123456789abcdef''
        sample_notification) ''id''"
  by (simp add: body_has_field_def mcp_handler_def mcp_dispatch_def json_response_def
      model_dump_json_def result_response_def sample_notification_def)







subsection \<open>Token verification\<close>

lemma fetch_jwks_client_id: "fetch_jwks http_get (cfg\<lparr>client_id := c\<rparr>) = fetch_jwks http_get cfg"
  by (simp add: fetch_jwks_def)

lemma verified_call_no_audience:
  "verified_call (cfg\<lparr>client_id := c\<rparr>) rsa_key False token = verified_call cfg rsa_key False token"
  by (simp add: verified_call_def issuer_def)

lemma sample_jwks:
  "fetch_jwks sample_http_get sample_cognito
     = Inr (PDict [(''keys'', PList [PDict [(''kid'', PStr ''key-1''), (''kty'', PStr ''RSA'')]])])"
  by code_simp

text \<open>
  Claim C1. Take a token that passes the format check and whose signing key is found.
  When its decoded claims have an \<open>aud\<close> entry, the verifying call of \<open>jwt.decode\<close> is made
  with audience verification on and with the configured client id as the audience, and
  every failure of that call is a failure of the verification. The comparison itself is
  the library's. Its contract for a token whose \<open>aud\<close> claim is \<open>v\<close>: a call for that token
  with audience verification on and an audience \<open>a\<close> raises, unless \<open>v\<close> is the string \<open>a\<close>
  or a list with the string \<open>a\<close> in it. With a library that keeps this contract, a token
  whose \<open>aud\<close> is neither the configured client id nor a list that has it fails the
  verification, with the exception of that call as the handler passes it on. When the
  claims have no \<open>aud\<close> entry, the call is made with audience verification off and no
  audience: the outcome does not depend on the client id, and the verification succeeds
  when the other checks do.
\<close>

theorem audience_checked_only_when_present:
  assumes fmt: "validate_jwt_token_format token"
    and jwks: "fetch_jwks http_get cfg = Inr jwks"
    and key: "resolve_key P L jwks token = Inr rsa_key"
    and unverified: "jwt_decode L (unverified_call token) = Inr payload_check"
  shows "(''aud'' \<in> set (map fst payload_check) \<longrightarrow>
            verify_aud (dc_options (verified_call cfg rsa_key True token)) = Some True
          \<and> dc_audience (verified_call cfg rsa_key True token) = client_id cfg
          \<and> validate_cognito_token P L http_get now cfg required_scopes token
              = (case jwt_decode L (verified_call cfg rsa_key True token) of
                   Inl e \<Rightarrow> Inl (decode_handler e)
                 | Inr payload \<Rightarrow> validate_token_security P now required_scopes payload))
       \<and> (''aud'' \<notin> set (map fst payload_check) \<longrightarrow>
            verify_aud (dc_options (verified_call cfg rsa_key False token)) = Some False
          \<and> dc_audience (verified_call cfg rsa_key False token) = None
          \<and> validate_cognito_token P L http_get now cfg required_scopes token
              = (case jwt_decode L (verified_call cfg rsa_key False token) of
                   Inl e \<Rightarrow> Inl (decode_handler e)
                 | Inr payload \<Rightarrow> validate_token_security P now required_scopes payload)
          \<and> (\<forall>c. validate_cognito_token P L http_get now (cfg\<lparr>client_id := c\<rparr>) required_scopes token
                   = validate_cognito_token P L http_get now cfg required_scopes token))
       \<and> (\<forall>v cid.
            dict_get payload_check ''aud'' = Some v \<and> client_id cfg = Some cid
            \<and> v \<noteq> PStr cid \<and> (\<forall>xs. v = PList xs \<longrightarrow> PStr cid \<notin> set xs)
            \<and> (\<forall>call a.
                  dc_token call = token \<and> verify_aud (dc_options call) = Some True
                  \<and> dc_audience call = Some a
                  \<and> v \<noteq> PStr a \<and> (\<forall>xs. v = PList xs \<longrightarrow> PStr a \<notin> set xs)
                  \<longrightarrow> (\<exists>e. jwt_decode L call = Inl e))
            \<longrightarrow> (\<exists>e. jwt_decode L (verified_call cfg rsa_key True token) = Inl e
                     \<and> validate_cognito_token P L http_get now cfg required_scopes token
                         = Inl (decode_handler e)))"
proof (intro conjI impI allI)
  fix v cid
  assume mismatch: "dict_get payload_check ''aud'' = Some v \<and> client_id cfg = Some cid
            \<and> v \<noteq> PStr cid \<and> (\<forall>xs. v = PList xs \<longrightarrow> PStr cid \<notin> set xs)
            \<and> (\<forall>call a.
                  dc_token call = token \<and> verify_aud (dc_options call) = Some True
                  \<and> dc_audience call = Some a
                  \<and> v \<noteq> PStr a \<and> (\<forall>xs. v = PList xs \<longrightarrow> PStr a \<notin> set xs)
                  \<longrightarrow> (\<exists>e. jwt_decode L call = Inl e))"
  let ?call = "verified_call cfg rsa_key True token"
  from mismatch have aud: "''aud'' \<in> set (map fst payload_check)"
    by (auto simp: dict_get_def dest: map_of_SomeD intro: rev_image_eqI)
  from mismatch
  have call: "dc_token ?call = token \<and> verify_aud (dc_options ?call) = Some True
      \<and> dc_audience ?call = Some cid
      \<and> v \<noteq> PStr cid \<and> (\<forall>xs. v = PList xs \<longrightarrow> PStr cid \<notin> set xs)"
    by (simp add: verified_call_def)
  from mismatch
  have contract: "\<And>call a.
      dc_token call = token \<and> verify_aud (dc_options call) = Some True
      \<and> dc_audience call = Some a
      \<and> v \<noteq> PStr a \<and> (\<forall>xs. v = PList xs \<longrightarrow> PStr a \<notin> set xs)
      \<Longrightarrow> \<exists>e. jwt_decode L call = Inl e"
    by blast
  from contract [OF call] obtain e where e: "jwt_decode L ?call = Inl e"
    by blast
  from fmt jwks key unverified aud e
  have "validate_cognito_token P L http_get now cfg required_scopes token = Inl (decode_handler e)"
    by (simp add: validate_cognito_token_def decode_token_def)
  with e
  show "\<exists>e. jwt_decode L (verified_call cfg rsa_key True token) = Inl e
          \<and> validate_cognito_token P L http_get now cfg required_scopes token
              = Inl (decode_handler e)"
    by blast
next
  assume aud: "''aud'' \<in> set (map fst payload_check)"
  show "verify_aud (dc_options (verified_call cfg rsa_key True token)) = Some True"
    by (simp add: verified_call_def)
  show "dc_audience (verified_call cfg rsa_key True token) = client_id cfg"
    by (simp add: verified_call_def)
  from fmt jwks key unverified aud
  show "validate_cognito_token P L http_get now cfg required_scopes token
      = (case jwt_decode L (verified_call cfg rsa_key True token) of
           Inl e \<Rightarrow> Inl (decode_handler e)
         | Inr payload \<Rightarrow> validate_token_security P now required_scopes payload)"
    by (simp add: validate_cognito_token_def decode_token_def split: sum.splits)
next
  assume no_aud: "''aud'' \<notin> set (map fst payload_check)"
  show "verify_aud (dc_options (verified_call cfg rsa_key False token)) = Some False"
    by (simp add: verified_call_def)
  show "dc_audience (verified_call cfg rsa_key False token) = None"
    by (simp add: verified_call_def)
  from fmt jwks key unverified no_aud
  show skipped: "validate_cognito_token P L http_get now cfg required_scopes token
      = (case jwt_decode L (verified_call cfg rsa_key False token) of
           Inl e \<Rightarrow> Inl (decode_handler e)
         | Inr payload \<Rightarrow> validate_token_security P now required_scopes payload)"
    by (simp add: validate_cognito_token_def decode_token_def split: sum.splits)
  fix c
  from fmt jwks key unverified no_aud
  have "validate_cognito_token P L http_get now (cfg\<lparr>client_id := c\<rparr>) required_scopes token
      = (case jwt_decode L (verified_call cfg rsa_key False token) of
           Inl e \<Rightarrow> Inl (decode_handler e)
         | Inr payload \<Rightarrow> validate_token_security P now required_scopes payload)"
    by (simp add: validate_cognito_token_def decode_token_def fetch_jwks_client_id
        verified_call_no_audience split: sum.splits)
  with skipped
  show "validate_cognito_token P L http_get now (cfg\<lparr>client_id := c\<rparr>) required_scopes token
      = validate_cognito_token P L http_get now cfg required_scopes token"
    by simp
qed

theorem audience_checked_only_when_present_witness:
  "validate_cognito_token sample_python sample_jwt_library sample_http_get sample_now
      sample_cognito None ''hdr.otheraud.sig''
     = Inl (InvalidTokenError ''Token validation failed: Invalid audience'')
   \<and> validate_cognito_token sample_python sample_jwt_library sample_http_get sample_now
      sample_cognito None ''hdr.noaud.sig'' = Inr fresh_claims
   \<and> validate_cognito_token sample_python sample_jwt_library sample_http_get sample_now
      (sample_cognito\<lparr>client_id := Some ''another-client''\<rparr>) None ''hdr.noaud.sig''
     = Inr fresh_claims"
proof -
  let ?jwks = "PDict [(''keys'', PList [PDict [(''kid'', PStr ''key-1''), (''kty'', PStr ''RSA'')]])] :: rat pyval"
  have fmt1: "validate_jwt_token_format ''hdr.otheraud.sig''" by code_simp
  have key1: "resolve_key sample_python sample_jwt_library ?jwks ''hdr.otheraud.sig''
      = Inr ''public-key-1''"
    by code_simp
  have unverified1: "jwt_decode sample_jwt_library (unverified_call ''hdr.otheraud.sig'')
      = Inr (fresh_claims @ [(''aud'', PStr ''client-2'')])"
    by code_simp
  have rejected: "jwt_decode sample_jwt_library
      (verified_call sample_cognito ''public-key-1'' True ''hdr.otheraud.sig'')
      = Inl (InvalidTokenSubclass ''Invalid audience'')"
    by code_simp
  have fmt2: "validate_jwt_token_format ''hdr.noaud.sig''" by code_simp
  have key2: "resolve_key sample_python sample_jwt_library ?jwks ''hdr.noaud.sig''
      = Inr ''public-key-1''"
    by code_simp
  have unverified2: "jwt_decode sample_jwt_library (unverified_call ''hdr.noaud.sig'')
      = Inr fresh_claims"
    by code_simp
  have aud2: "''aud'' \<notin> set (map fst fresh_claims)"
    by (simp add: fresh_claims_def)
  have accepted: "jwt_decode sample_jwt_library
      (verified_call sample_cognito ''public-key-1'' False ''hdr.noaud.sig'') = Inr fresh_claims"
    by code_simp
  have secure: "validate_token_security sample_python sample_now None fresh_claims = Inr fresh_claims"
    by code_simp
  have claim1: "dict_get (fresh_claims @ [(''aud'', PStr ''client-2'')]) ''aud''
      = Some (PStr ''client-2'')"
    by code_simp
  have client1: "client_id sample_cognito = Some ''client-1''"
    by (simp add: sample_cognito_def)
  have other1: "(PStr ''client-2'' :: rat pyval) \<noteq> PStr ''client-1''
      \<and> (\<forall>xs. (PStr ''client-2'' :: rat pyval) = PList xs \<longrightarrow> PStr ''client-1'' \<notin> set xs)"
    by simp
  have contract1: "\<forall>call a.
      dc_token call = ''hdr.otheraud.sig'' \<and> verify_aud (dc_options call) = Some True
      \<and> dc_audience call = Some a
      \<and> (PStr ''client-2'' :: rat pyval) \<noteq> PStr a
      \<and> (\<forall>xs. (PStr ''client-2'' :: rat pyval) = PList xs \<longrightarrow> PStr a \<notin> set xs)
      \<longrightarrow> (\<exists>e. jwt_decode sample_jwt_library (call :: string decode_call) = Inl e)"
    by (auto simp: sample_jwt_library_def sample_tokens_def fresh_claims_def)
  from audience_checked_only_when_present [OF fmt1 sample_jwks key1 unverified1,
      of sample_now None] claim1 client1 other1 contract1
  have "\<exists>e. jwt_decode sample_jwt_library
          (verified_call sample_cognito ''public-key-1'' True ''hdr.otheraud.sig'') = Inl e
      \<and> validate_cognito_token sample_python sample_jwt_library sample_http_get sample_now
          sample_cognito None ''hdr.otheraud.sig'' = Inl (decode_handler e)"
    by blast
  with rejected
  have first: "validate_cognito_token sample_python sample_jwt_library sample_http_get sample_now
      sample_cognito None ''hdr.otheraud.sig''
     = Inl (InvalidTokenError ''Token validation failed: Invalid audience'')"
    by auto
  from audience_checked_only_when_present [OF fmt2 sample_jwks key2 unverified2,
      of sample_now None] aud2 accepted secure
  have second: "validate_cognito_token sample_python sample_jwt_library sample_http_get sample_now
      sample_cognito None ''hdr.noaud.sig'' = Inr fresh_claims"
    and third: "validate_cognito_token sample_python sample_jwt_library sample_http_get sample_now
      (sample_cognito\<lparr>client_id := Some ''another-client''\<rparr>) None ''hdr.noaud.sig''
     = Inr fresh_claims"
    by simp_all
  from first second third show ?thesis by blast
qed

lemma security_checks_old:
  assumes "dict_get payload ''iat'' = Some iat"
    and "isinstance_int_float iat"
    and "now - num_val P iat > 86400"
  shows "\<exists>e. security_checks P now required_scopes payload = Inl e"
  using assms
  by (auto simp: security_checks_def dict_get_def dict_get_default_def Let_def
      split: option.splits)

lemma too_old_raised_inside:
  assumes "dict_get payload ''token_use'' = Some (PStr ''id'')"
    and "py_truthy P (dict_get_default payload ''sub'' PNone)"
    and "dict_get payload ''iat'' = Some iat"
    and "isinstance_int_float iat"
    and "now - num_val P iat > 86400"
  shows "security_checks P now required_scopes payload = Inl (InvalidTokenError ''Token too old'')"
  using assms
  by (auto simp: security_checks_def scope_check_def dict_get_def dict_get_default_def Let_def
      split: option.splits)

text \<open>
  Claim C2, as amended. A token whose signature and registered claims the library
  accepts (so it has not expired) and whose \<open>iat\<close> lies more than 86400 seconds before the
  current time fails verification, whatever its other claims are. What the caller gets
  is \<open>InvalidTokenError\<close> with the message \<open>Token security validation failed\<close>, the one
  failure of every check after decoding. As stated, with a failure kind of its own for
  the old token, the claim fails: the \<open>Token too old\<close> exception is raised inside a \<open>try\<close>
  whose handler replaces it, and a fresh token without a subject fails the same way.
\<close>

theorem old_token_rejected:
  assumes fmt: "validate_jwt_token_format token"
    and jwks: "fetch_jwks http_get cfg = Inr jwks"
    and key: "resolve_key P L jwks token = Inr rsa_key"
    and decoded: "decode_token L cfg rsa_key token = Inr payload"
    and iat: "dict_get payload ''iat'' = Some iat"
    and number: "isinstance_int_float iat"
    and old: "now - num_val P iat > 86400"
  shows "validate_cognito_token P L http_get now cfg required_scopes token
           = Inl (InvalidTokenError ''Token security validation failed'')
       \<and> (\<forall>p e. security_checks P now required_scopes p = Inl e
             \<longrightarrow> validate_token_security P now required_scopes p
                 = Inl (InvalidTokenError ''Token security validation failed''))"
proof -
  from security_checks_old [OF iat number old]
  obtain e where "security_checks P now required_scopes payload = Inl e" ..
  then have "validate_token_security P now required_scopes payload
      = Inl (InvalidTokenError ''Token security validation failed'')"
    by (simp add: validate_token_security_def)
  with fmt jwks key decoded
  have whole: "validate_cognito_token P L http_get now cfg required_scopes token
      = Inl (InvalidTokenError ''Token security validation failed'')"
    by (simp add: validate_cognito_token_def)
  have same: "\<forall>p e. security_checks P now required_scopes p = Inl e
      \<longrightarrow> validate_token_security P now required_scopes p
          = Inl (InvalidTokenError ''Token security validation failed'')"
    by (simp add: validate_token_security_def)
  from whole same show ?thesis ..
qed

theorem old_token_rejected_witness:
  "validate_cognito_token sample_python sample_jwt_library sample_http_get sample_now
      sample_cognito None ''hdr.old.sig''
     = Inl (InvalidTokenError ''Token security validation failed'')
   \<and> sample_now < 1700200000"
proof -
  have fmt: "validate_jwt_token_format ''hdr.old.sig''" by code_simp
  have key: "resolve_key sample_python sample_jwt_library
      (PDict [(''keys'', PList [PDict [(''kid'', PStr ''key-1''), (''kty'', PStr ''RSA'')]])])
      ''hdr.old.sig'' = Inr ''public-key-1''"
    by code_simp
  have decoded: "decode_token sample_jwt_library sample_cognito ''public-key-1'' ''hdr.old.sig''
      = Inr [(''sub'', PStr ''user-1''), (''token_use'', PStr ''id''),
             (''iat'', PInt 1699900000), (''exp'', PInt 1700200000)]"
    by code_simp
  have iat: "dict_get [(''sub'', PStr ''user-1''), (''token_use'', PStr ''id''),
             (''iat'', PInt 1699900000), (''exp'', PInt 1700200000 :: rat pyval)] ''iat''
      = Some (PInt 1699900000)"
    by (simp add: dict_get_def)
  have number: "isinstance_int_float (PInt 1699900000 :: rat pyval)" by simp
  have old: "sample_now - num_val sample_python (PInt 1699900000) > 86400"
    by (simp add: sample_now_def)
  have unexpired: "sample_now < 1700200000" by (simp add: sample_now_def)
  from old_token_rejected [OF fmt sample_jwks key decoded iat number old] unexpired
  show ?thesis by blast
qed

theorem too_old_not_distinct_counterexample:
  "security_checks sample_python sample_now None
      [(''sub'', PStr ''user-1''), (''token_use'', PStr ''id''),
       (''iat'', PInt 1699900000), (''exp'', PInt 1700200000)]
     = Inl (InvalidTokenError ''Token too old'')
   \<and> validate_cognito_token sample_python sample_jwt_library sample_http_get sample_now
        sample_cognito None ''hdr.old.sig''
     = Inl (InvalidTokenError ''Token security validation failed'')
   \<and> security_checks sample_python sample_now None
      [(''token_use'', PStr ''id''), (''iat'', PInt 1700000000), (''exp'', PInt 1700200000)]
     = Inl (InvalidTokenError ''Token missing subject'')
   \<and> validate_cognito_token sample_python sample_jwt_library sample_http_get sample_now
        sample_cognito None ''hdr.nosub.sig''
     = Inl (InvalidTokenError ''Token security validation failed'')"
  by code_simp

end
